theory Spec2Isabelle
  imports Main "HOL-Library.Sublist"
begin

section \<open>The URL shortener: storage, handlers and their properties\<close>

text \<open>
  A shallow embedding of \<^verbatim>\<open>app.py\<close>: the two SQLite tables, the process-wide
  \<^verbatim>\<open>threading.Lock\<close>, and the Flask handlers \<^verbatim>\<open>shorten_url\<close>,
  \<^verbatim>\<open>redirect_to_url\<close>, \<^verbatim>\<open>get_stats\<close>, \<^verbatim>\<open>get_recent_urls\<close>,
  \<^verbatim>\<open>clear_all_data\<close> with the helpers they call. Strings are lists of 8-bit
  characters, so the model covers request texts in the Latin-1 range.
\<close>

subsection \<open>Tables\<close>

text \<open>
  \<^verbatim>\<open>urls(id, short_code, original_url, clicks, created_at)\<close> and
  \<^verbatim>\<open>daily_stats(date, urls_created, total_clicks)\<close>. A table is the list of its rows in
  rowid order; \<open>url_seq\<close> is the AUTOINCREMENT counter. \<open>created_at\<close> is
  CURRENT_TIMESTAMP, a count of whole seconds.
\<close>

record url_row =
  row_id :: nat
  short_code :: string
  original_url :: string
  clicks :: int
  created_at :: nat

record stat_row =
  stat_date :: string
  urls_created :: int
  total_clicks :: int

record database =
  urls :: "url_row list"
  daily_stats :: "stat_row list"
  url_seq :: nat

text \<open>
  The process state: the database file, the module-level lock, and how many draws the
  process has taken from the random generator.
\<close>

record state =
  store :: database
  lock_held :: bool
  rng_pos :: nat

text \<open>
  What a handler call takes from outside the program: the clock (\<^verbatim>\<open>date.today()\<close> and
  CURRENT_TIMESTAMP), the outcomes of \<^verbatim>\<open>random.choice\<close>, what writers in other
  processes do to the database file between the handler's SELECT and its INSERT (the lock is
  an object of one process and does not exclude them), and the standard library's check of a
  bracketed host inside \<^verbatim>\<open>urlparse\<close>, which differs between Python versions.
\<close>

record env =
  env_today :: string
  env_now :: nat
  env_rnd :: "nat \<Rightarrow> nat"
  env_other_writers :: "database \<Rightarrow> database"
  env_bracket_ok :: "string \<Rightarrow> bool"

subsection \<open>Requests and responses\<close>

datatype json = JNull | JBool bool | JInt int | JStr string

text \<open>
  A request after Flask has read it: \<open>req_json\<close> is what \<^verbatim>\<open>request.get_json()\<close>
  returns, \<open>None\<close> for Python's None and the key-value pairs of a JSON object otherwise
  (each key once). The values are null, booleans, integers and strings; floats, arrays and
  nested objects are left out.
\<close>

record request =
  req_is_json :: bool
  req_json :: "(string \<times> json) list option"
  req_url_root :: string

record recent_item =
  item_short_code :: string
  item_short_url :: string
  item_original_url :: string
  item_clicks :: int
  item_created_at :: nat

datatype body =
    Error_json string
  | Shorten_json string string string
  | Stats_json int int int int
  | Recent_json "recent_item list"
  | Message_json string
  | Text string
  | Not_found_page
  | Redirect_to string

datatype response = Response (status_of: nat) (body_of: body)

text \<open>
  A handler either returns, or waits for the lock for ever: \<^verbatim>\<open>with lock:\<close> acquires
  without a timeout, and a \<^verbatim>\<open>threading.Lock\<close> is not reentrant.
\<close>

datatype 'a outcome = Returned 'a | Blocked

datatype exn = AttributeError string | IntegrityError string

fun str_exn :: "exn \<Rightarrow> string" where
  "str_exn (AttributeError m) = m"
| "str_exn (IntegrityError m) = m"

subsection \<open>Strings\<close>

definition whitespace :: "char list" where
  "whitespace = [CHR 0x09, CHR 0x0A, CHR 0x0B, CHR 0x0C, CHR 0x0D, CHR 0x1C, CHR 0x1D,
     CHR 0x1E, CHR 0x1F, CHR 0x20, CHR 0x85, CHR 0xA0]"

definition isspace :: "char \<Rightarrow> bool" where
  "isspace c = (c \<in> set whitespace)"

definition strip :: "string \<Rightarrow> string" where
  "strip s = rev (dropWhile isspace (rev (dropWhile isspace s)))"

definition rstrip_slash :: "string \<Rightarrow> string" where
  "rstrip_slash s = rev (dropWhile (\<lambda>c. c = CHR ''/'') (rev s))"

definition ascii_lowercase :: string where
  "ascii_lowercase = ''abcdefghijklmnopqrstuvwxyz''"

definition ascii_uppercase :: string where
  "ascii_uppercase = ''ABCDEFGHIJKLMNOPQRSTUVWXYZ''"

definition digits :: string where
  "digits = ''0123456789''"

definition ascii_letters :: string where
  "ascii_letters = ascii_lowercase @ ascii_uppercase"

definition lower :: "char \<Rightarrow> char" where
  "lower c = (case map_of (zip ascii_uppercase ascii_lowercase) c of
      Some l \<Rightarrow> l | None \<Rightarrow> c)"

text \<open>
  \<^verbatim>\<open>re.match(r'^[a-zA-Z0-9_-]+$', s)\<close>: one or more characters of the class, then the
  end of the string; Python's \<^verbatim>\<open>$\<close> also matches just before a final newline.
\<close>

definition code_char :: "char \<Rightarrow> bool" where
  "code_char c = (c \<in> set (ascii_letters @ digits @ ''_-''))"

definition re_match_code :: "string \<Rightarrow> bool" where
  "re_match_code s =
     (takeWhile code_char s \<noteq> [] \<and>
      (dropWhile code_char s = [] \<or> dropWhile code_char s = [CHR 0x0A]))"

subsection \<open>URL validation\<close>

text \<open>
  The scheme and netloc that \<^verbatim>\<open>urllib.parse.urlparse\<close> computes (its
  \<^verbatim>\<open>urlsplit\<close>): leading control characters and spaces are dropped, tab, CR and LF
  are removed, a leading run of scheme characters before the first colon is the scheme
  (lower-cased) when it starts with a letter, and after \<^verbatim>\<open>//\<close> the netloc runs up to
  the first of \<^verbatim>\<open>/ ? #\<close>. Unbalanced brackets in the netloc raise ValueError, and so
  does a bracketed host that the library's check refuses.
\<close>

definition scheme_chars :: string where
  "scheme_chars = ascii_letters @ digits @ ''+-.''"

definition lstrip_c0 :: "string \<Rightarrow> string" where
  "lstrip_c0 s = dropWhile (\<lambda>c. (of_char c :: nat) \<le> 32) s"

definition remove_unsafe :: "string \<Rightarrow> string" where
  "remove_unsafe s = filter (\<lambda>c. c \<notin> set [CHR 0x09, CHR 0x0D, CHR 0x0A]) s"

definition split_scheme :: "string \<Rightarrow> string \<times> string" where
  "split_scheme url =
     (let pre = takeWhile (\<lambda>c. c \<noteq> CHR '':'') url in
      if CHR '':'' \<in> set url \<and> pre \<noteq> [] \<and> hd url \<in> set ascii_letters
         \<and> list_all (\<lambda>c. c \<in> set scheme_chars) pre
      then (map lower pre, drop (length pre + 1) url)
      else ([], url))"

definition splitnetloc :: "string \<Rightarrow> string" where
  "splitnetloc url = takeWhile (\<lambda>c. c \<notin> set ''/?#'') (drop 2 url)"

definition bracketed_host :: "string \<Rightarrow> string" where
  "bracketed_host netloc =
     takeWhile (\<lambda>c. c \<noteq> CHR '']'') (drop 1 (dropWhile (\<lambda>c. c \<noteq> CHR ''['') netloc))"

datatype value_error = ValueError

definition urlparse :: "env \<Rightarrow> string \<Rightarrow> value_error + (string \<times> string)" where
  "urlparse e url0 =
     (let (scheme, url) = split_scheme (remove_unsafe (lstrip_c0 url0)) in
      if take 2 url = ''//'' then
        (let netloc = splitnetloc url in
         if (CHR ''['' \<in> set netloc \<and> CHR '']'' \<notin> set netloc)
            \<or> (CHR '']'' \<in> set netloc \<and> CHR ''['' \<notin> set netloc)
         then Inl ValueError
         else if CHR ''['' \<in> set netloc \<and> CHR '']'' \<in> set netloc
              \<and> \<not> env_bracket_ok e (bracketed_host netloc)
         then Inl ValueError
         else Inr (scheme, netloc))
      else Inr (scheme, []))"

definition is_valid_url :: "env \<Rightarrow> string \<Rightarrow> bool" where
  "is_valid_url e url =
     (case urlparse e url of
        Inl _ \<Rightarrow> False
      | Inr (scheme, netloc) \<Rightarrow>
          (scheme \<noteq> [] \<and> netloc \<noteq> []) \<and> scheme \<in> set [''http'', ''https''])"

subsection \<open>Storage operations\<close>

text \<open>
  \<^verbatim>\<open>SELECT ... FROM urls WHERE short_code = ?\<close> with \<^verbatim>\<open>fetchone()\<close>: the first
  row with that code, if any.
\<close>

definition select_by_code :: "database \<Rightarrow> string \<Rightarrow> url_row option" where
  "select_by_code d code = find (\<lambda>r. short_code r = code) (urls d)"

text \<open>
  \<^verbatim>\<open>INSERT INTO urls (short_code, original_url)\<close> followed by the commit. The UNIQUE
  constraint on \<open>short_code\<close> refuses a code that is present; otherwise the row gets the next
  id, zero clicks and the current timestamp.
\<close>

definition insert_url :: "env \<Rightarrow> string \<Rightarrow> string \<Rightarrow> database \<Rightarrow> exn + database" where
  "insert_url e code url d =
     (if select_by_code d code \<noteq> None
      then Inl (IntegrityError ''UNIQUE constraint failed: urls.short_code'')
      else Inr (d\<lparr>urls := urls d @
                  [\<lparr>row_id = url_seq d + 1, short_code = code, original_url = url,
                    clicks = 0, created_at = env_now e\<rparr>],
                url_seq := url_seq d + 1\<rparr>))"

text \<open>\<^verbatim>\<open>UPDATE urls SET clicks = clicks + 1 WHERE short_code = ?\<close> and the commit.\<close>

definition increment_clicks :: "string \<Rightarrow> database \<Rightarrow> database" where
  "increment_clicks code d =
     d\<lparr>urls := map (\<lambda>r. if short_code r = code then r\<lparr>clicks := clicks r + 1\<rparr> else r) (urls d)\<rparr>"

text \<open>
  The body of \<^verbatim>\<open>update_daily_stats\<close> inside the lock: add to today's row when there is
  one, insert a row for today otherwise.
\<close>

definition upsert_daily :: "string \<Rightarrow> int \<Rightarrow> int \<Rightarrow> database \<Rightarrow> database" where
  "upsert_daily today n_urls n_clicks d =
     (case find (\<lambda>r. stat_date r = today) (daily_stats d) of
        Some existing \<Rightarrow>
          d\<lparr>daily_stats := map (\<lambda>r. if stat_date r = today
                 then r\<lparr>urls_created := urls_created r + n_urls,
                        total_clicks := total_clicks r + n_clicks\<rparr>
                 else r) (daily_stats d)\<rparr>
      | None \<Rightarrow>
          d\<lparr>daily_stats := daily_stats d @
                 [\<lparr>stat_date = today, urls_created = n_urls, total_clicks = n_clicks\<rparr>]\<rparr>)"

subsection \<open>The lock\<close>

definition acquire :: "state \<Rightarrow> state" where
  "acquire st = st\<lparr>lock_held := True\<rparr>"

definition release :: "state \<Rightarrow> state" where
  "release st = st\<lparr>lock_held := False\<rparr>"

text \<open>
  \<^verbatim>\<open>update_daily_stats\<close>: \<^verbatim>\<open>with lock:\<close> waits while the lock is held, whoever
  holds it.
\<close>

definition update_daily_stats :: "env \<Rightarrow> int \<Rightarrow> int \<Rightarrow> state \<Rightarrow> unit outcome \<times> state" where
  "update_daily_stats e n_urls n_clicks st =
     (if lock_held st then (Blocked, st)
      else (let st1 = acquire st;
                st2 = st1\<lparr>store := upsert_daily (env_today e) n_urls n_clicks (store st1)\<rparr>
            in (Returned (), release st2)))"

subsection \<open>Short codes\<close>

definition characters :: string where
  "characters = ascii_letters @ digits"

text \<open>
  \<^verbatim>\<open>generate_short_code\<close>: six draws of \<^verbatim>\<open>random.choice(characters)\<close>; the result is
  the code and the position of the generator after it.
\<close>

definition generate_short_code :: "env \<Rightarrow> nat \<Rightarrow> string \<times> nat" where
  "generate_short_code e pos =
     (map (\<lambda>i. characters ! (env_rnd e (pos + i) mod length characters)) [0..<6], pos + 6)"

text \<open>
  The loop \<^verbatim>\<open>while attempts < 10\<close> of the random path, with its three variables:
  \<open>attempts\<close>, \<open>short_code\<close> (the candidate of the last round) and the generator's
  position.
\<close>

function random_loop :: "env \<Rightarrow> database \<Rightarrow> nat \<Rightarrow> string \<Rightarrow> nat \<Rightarrow> nat \<times> string \<times> nat" where
  "random_loop e d attempts code pos =
     (if attempts < 10 then
        (if select_by_code d (fst (generate_short_code e pos)) = None
         then (attempts, fst (generate_short_code e pos), snd (generate_short_code e pos))
         else random_loop e d (attempts + 1) (fst (generate_short_code e pos))
                (snd (generate_short_code e pos)))
      else (attempts, code, pos))"
  by pat_completeness auto
termination
  by (relation "measure (\<lambda>(e, d, attempts, code, pos). 10 - attempts)") auto

declare random_loop.simps [simp del]

text \<open>
  Lines 134 to 164 of \<^verbatim>\<open>shorten_url\<close>: the custom code after its checks, or a random
  one; \<open>Inl\<close> is the response of an early return.
\<close>

definition choose_code :: "env \<Rightarrow> string \<Rightarrow> state \<Rightarrow> (response + string) \<times> state" where
  "choose_code e custom_code st =
     (if custom_code \<noteq> [] then
        (if \<not> re_match_code custom_code then
           (Inl (Response 400 (Error_json
              ''Custom code can only contain letters, numbers, hyphens, and underscores'')), st)
         else if length custom_code > 20 then
           (Inl (Response 400 (Error_json ''Custom code must be 20 characters or less'')), st)
         else if select_by_code (store st) custom_code \<noteq> None then
           (Inl (Response 400 (Error_json
              ''Custom code already exists. Please choose a different one.'')), st)
         else (Inr custom_code, st))
      else
        (case random_loop e (store st) 0 [] (rng_pos st) of
           (attempts, code, pos) \<Rightarrow>
             if attempts \<ge> 10 then
               (Inl (Response 500 (Error_json
                  ''Unable to generate unique short code. Please try again.'')),
                st\<lparr>rng_pos := pos\<rparr>)
             else (Inr code, st\<lparr>rng_pos := pos\<rparr>)))"

subsection \<open>Handlers\<close>

text \<open>
  \<^verbatim>\<open>(data.get(key) or '').strip()\<close>: a missing key and a falsy value give the empty
  string, a string is stripped, and any other value has no \<^verbatim>\<open>strip\<close>.
\<close>

definition no_strip :: "string \<Rightarrow> string" where
  "no_strip type_name =
     [CHR 0x27] @ type_name @ [CHR 0x27] @ '' object has no attribute '' @
     [CHR 0x27] @ ''strip'' @ [CHR 0x27]"

fun or_empty_strip :: "json option \<Rightarrow> exn + string" where
  "or_empty_strip None = Inr []"
| "or_empty_strip (Some JNull) = Inr []"
| "or_empty_strip (Some (JBool b)) =
     (if b then Inl (AttributeError (no_strip ''bool'')) else Inr [])"
| "or_empty_strip (Some (JInt n)) =
     (if n = 0 then Inr [] else Inl (AttributeError (no_strip ''int'')))"
| "or_empty_strip (Some (JStr s)) = Inr (strip s)"

text \<open>The handlers' \<^verbatim>\<open>except Exception as e\<close>: status 500 with the text of the exception.\<close>

definition server_error :: "exn \<Rightarrow> response" where
  "server_error ex = Response 500 (Error_json (''Server error: '' @ str_exn ex))"

text \<open>
  Lines 131 to 189 of \<^verbatim>\<open>shorten_url\<close>, entered with the lock held: choose the code,
  insert and commit, then call \<^verbatim>\<open>update_daily_stats(urls_created=1)\<close> and build the
  answer. Leaving the \<^verbatim>\<open>with\<close> block, by a return or by an exception, releases the
  lock.
\<close>

definition shorten_locked ::
  "env \<Rightarrow> request \<Rightarrow> string \<Rightarrow> string \<Rightarrow> state \<Rightarrow> response outcome \<times> state" where
  "shorten_locked e req url custom_code st =
     (case choose_code e custom_code st of
        (Inl early, st1) \<Rightarrow> (Returned early, release st1)
      | (Inr code, st1) \<Rightarrow>
          (let st2 = st1\<lparr>store := env_other_writers e (store st1)\<rparr> in
           case insert_url e code url (store st2) of
             Inl ex \<Rightarrow> (Returned (server_error ex), release st2)
           | Inr d \<Rightarrow>
               (case update_daily_stats e 1 0 (st2\<lparr>store := d\<rparr>) of
                  (Blocked, st3) \<Rightarrow> (Blocked, st3)
                | (Returned _, st3) \<Rightarrow>
                    (Returned (Response 200 (Shorten_json
                       (rstrip_slash (req_url_root req) @ ''/'' @ code) code url)),
                     release st3))))"

definition shorten_url :: "env \<Rightarrow> request \<Rightarrow> state \<Rightarrow> response outcome \<times> state" where
  "shorten_url e req st =
     (if \<not> req_is_json req then
        (Returned (Response 400 (Error_json ''Content-Type must be application/json'')), st)
      else case req_json req of
        None \<Rightarrow> (Returned (Response 400 (Error_json ''Invalid JSON data'')), st)
      | Some data \<Rightarrow>
          (case or_empty_strip (map_of data ''url'') of
             Inl ex \<Rightarrow> (Returned (server_error ex), st)
           | Inr url \<Rightarrow>
               (case or_empty_strip (map_of data ''custom_code'') of
                  Inl ex \<Rightarrow> (Returned (server_error ex), st)
                | Inr custom_code \<Rightarrow>
                    if url = [] then
                      (Returned (Response 400 (Error_json ''URL is required'')), st)
                    else if \<not> is_valid_url e url then
                      (Returned (Response 400 (Error_json
                         ''Invalid URL format. Must start with http:// or https://'')), st)
                    else if lock_held st then (Blocked, st)
                    else shorten_locked e req url custom_code (acquire st))))"

text \<open>
  \<^verbatim>\<open>redirect_to_url\<close>: the format check, then under the lock the lookup, the click
  increment with its commit, and \<^verbatim>\<open>update_daily_stats(clicks=1)\<close>.
\<close>

definition redirect_to_url :: "env \<Rightarrow> string \<Rightarrow> state \<Rightarrow> response outcome \<times> state" where
  "redirect_to_url e code st =
     (if \<not> re_match_code code then
        (Returned (Response 400 (Text ''Invalid short code format'')), st)
      else if lock_held st then (Blocked, st)
      else
        (let st1 = acquire st in
         case select_by_code (store st1) code of
           None \<Rightarrow> (Returned (Response 404 Not_found_page), release st1)
         | Some url_record \<Rightarrow>
             (case update_daily_stats e 0 1
                     (st1\<lparr>store := increment_clicks code (store st1)\<rparr>) of
                (Blocked, st2) \<Rightarrow> (Blocked, st2)
              | (Returned _, st2) \<Rightarrow>
                  (Returned (Response 302 (Redirect_to (original_url url_record))),
                   release st2))))"

text \<open>
  \<^verbatim>\<open>get_stats\<close>: the count of mappings and the sum of their clicks, and today's row of
  \<open>daily_stats\<close> (zeros without one). It takes no lock.
\<close>

definition get_stats :: "env \<Rightarrow> state \<Rightarrow> response" where
  "get_stats e st =
     (let d = store st;
          total_urls = int (length (urls d));
          all_clicks = sum_list (map clicks (urls d))
      in case find (\<lambda>r. stat_date r = env_today e) (daily_stats d) of
           Some today_stats \<Rightarrow>
             Response 200 (Stats_json total_urls all_clicks
               (urls_created today_stats) (total_clicks today_stats))
         | None \<Rightarrow> Response 200 (Stats_json total_urls all_clicks 0 0))"

text \<open>
  \<^verbatim>\<open>ORDER BY created_at DESC LIMIT 10\<close>: SQLite scans the table in rowid order and
  sorts by the one key, so rows with the same timestamp stay in rowid order.
\<close>

definition recent_rows :: "database \<Rightarrow> url_row list" where
  "recent_rows d = take 10 (sort_key (\<lambda>r. - int (created_at r)) (urls d))"

definition to_item :: "string \<Rightarrow> url_row \<Rightarrow> recent_item" where
  "to_item base_url r =
     \<lparr>item_short_code = short_code r,
      item_short_url = base_url @ ''/'' @ short_code r,
      item_original_url = original_url r,
      item_clicks = clicks r,
      item_created_at = created_at r\<rparr>"

definition get_recent_urls :: "request \<Rightarrow> state \<Rightarrow> response" where
  "get_recent_urls req st =
     Response 200 (Recent_json
       (map (to_item (rstrip_slash (req_url_root req))) (recent_rows (store st))))"

text \<open>\<^verbatim>\<open>clear_all_data\<close>: both DELETEs and one commit, under the lock.\<close>

definition clear_all_data :: "state \<Rightarrow> response outcome \<times> state" where
  "clear_all_data st =
     (if lock_held st then (Blocked, st)
      else
        (let st1 = acquire st;
             st2 = st1\<lparr>store := (store st1)\<lparr>urls := [], daily_stats := []\<rparr>\<rparr>
         in (Returned (Response 200 (Message_json ''All data cleared successfully'')),
             release st2)))"

subsection \<open>Concrete inputs\<close>

text \<open>
  A quiet environment (no other writer, a generator that always draws index 0, every
  bracketed host accepted), the empty database as \<^verbatim>\<open>init_db\<close> creates it, and a
  fresh process.
\<close>

definition env0 :: env where
  "env0 = \<lparr>env_today = ''2024-01-01'', env_now = 1704067200, env_rnd = (\<lambda>i. 0),
           env_other_writers = (\<lambda>d. d), env_bracket_ok = (\<lambda>h. True)\<rparr>"

definition empty_db :: database where
  "empty_db = \<lparr>urls = [], daily_stats = [], url_seq = 0\<rparr>"

definition st0 :: state where
  "st0 = \<lparr>store = empty_db, lock_held = False, rng_pos = 0\<rparr>"

text \<open>\<^verbatim>\<open>POST /api/shorten {"url": "https://x.com", "custom_code": "ab"}\<close>\<close>

definition req_custom :: request where
  "req_custom = \<lparr>req_is_json = True,
       req_json = Some [(''url'', JStr ''https://x.com''), (''custom_code'', JStr ''ab'')],
       req_url_root = ''http://localhost:5000/''\<rparr>"

text \<open>\<^verbatim>\<open>POST /api/shorten {"url": "https://x.com"}\<close>\<close>

definition req_random :: request where
  "req_random = \<lparr>req_is_json = True,
       req_json = Some [(''url'', JStr ''https://x.com'')],
       req_url_root = ''http://localhost:5000/''\<rparr>"

text \<open>
  A database that holds the mapping \<open>ab\<close> and no daily row, in a process whose lock is
  free: the file as the first \<^verbatim>\<open>POST\<close> above leaves it, opened by a restarted process.
\<close>

definition row_ab :: url_row where
  "row_ab = \<lparr>row_id = 1, short_code = ''ab'', original_url = ''https://x.com'',
             clicks = 0, created_at = 1704067200\<rparr>"

definition db_ab :: database where
  "db_ab = \<lparr>urls = [row_ab], daily_stats = [], url_seq = 1\<rparr>"

definition st_ab :: state where
  "st_ab = \<lparr>store = db_ab, lock_held = False, rng_pos = 0\<rparr>"

text \<open>
  The \<open>j\<close>-th candidate that the random path generates when it starts at position
  \<open>pos\<close> of the generator.
\<close>

definition candidate :: "env \<Rightarrow> nat \<Rightarrow> nat \<Rightarrow> string" where
  "candidate e pos j = fst (generate_short_code e (pos + 6 * j))"

text \<open>
  A database in which the code \<open>aaaaaa\<close> is taken, and a generator that draws index 0
  for the first candidate and index 2 afterwards.
\<close>

definition row_aaaaaa :: url_row where
  "row_aaaaaa = \<lparr>row_id = 1, short_code = ''aaaaaa'', original_url = ''https://x.com'',
                 clicks = 0, created_at = 1704067200\<rparr>"

definition st_taken :: state where
  "st_taken = \<lparr>store = \<lparr>urls = [row_aaaaaa], daily_stats = [], url_seq = 1\<rparr>,
               lock_held = False, rng_pos = 0\<rparr>"

definition env1 :: env where
  "env1 = \<lparr>env_today = ''2024-01-01'', env_now = 1704067200,
           env_rnd = (\<lambda>i. if i < 6 then 0 else 2),
           env_other_writers = (\<lambda>d. d), env_bracket_ok = (\<lambda>h. True)\<rparr>"

subsection \<open>The statistics invariant of the data model\<close>

text \<open>
  The invariant as the specification words it: the sum of \<open>urls_created\<close> over all daily
  rows equals the number of mappings, and the sum of \<open>total_clicks\<close> over all daily rows
  equals the sum of \<open>clicks\<close> over all mappings.
\<close>

definition spec_stats_consistent :: "database \<Rightarrow> bool" where
  "spec_stats_consistent d =
     (sum_list (map urls_created (daily_stats d)) = int (length (urls d)) \<and>
      sum_list (map total_clicks (daily_stats d)) = sum_list (map clicks (urls d)))"

text \<open>\<^verbatim>\<open>POST /api/shorten {"url": "https://x.com", "custom_code": c}\<close>\<close>

definition req_with_code :: "string \<Rightarrow> request" where
  "req_with_code c = \<lparr>req_is_json = True,
       req_json = Some [(''url'', JStr ''https://x.com''), (''custom_code'', JStr c)],
       req_url_root = ''http://localhost:5000/''\<rparr>"

text \<open>\<^verbatim>\<open>POST /api/shorten {"url": u}\<close>\<close>

definition req_with_url :: "string \<Rightarrow> request" where
  "req_with_url u = \<lparr>req_is_json = True, req_json = Some [(''url'', JStr u)],
       req_url_root = ''http://localhost:5000/''\<rparr>"

text \<open>\<^verbatim>\<open>POST /api/shorten {"url": "http://:80", "custom_code": "ab"}\<close>\<close>

definition req_port :: request where
  "req_port = \<lparr>req_is_json = True,
       req_json = Some [(''url'', JStr ''http://:80''), (''custom_code'', JStr ''ab'')],
       req_url_root = ''http://localhost:5000/''\<rparr>"

subsection \<open>URL validity in the words of the specification\<close>

text \<open>
  The host of a netloc \<^verbatim>\<open>[userinfo@]host[:port]\<close>: what follows the last \<^verbatim>\<open>@\<close>, up to
  the first colon, or the inside of the brackets for a bracketed address.
\<close>

definition spec_host :: "string \<Rightarrow> string" where
  "spec_host netloc =
     (let hostinfo = rev (takeWhile (\<lambda>c. c \<noteq> CHR ''@'') (rev netloc)) in
      if CHR ''['' \<in> set hostinfo
      then takeWhile (\<lambda>c. c \<noteq> CHR '']'') (drop 1 (dropWhile (\<lambda>c. c \<noteq> CHR ''['') hostinfo))
      else takeWhile (\<lambda>c. c \<noteq> CHR '':'') hostinfo)"

text \<open>
  The specification's rule: the URL is non-empty and parses as an absolute URL with scheme
  \<open>http\<close> or \<open>https\<close> and a non-empty host.
\<close>

definition spec_valid_url :: "env \<Rightarrow> string \<Rightarrow> bool" where
  "spec_valid_url e url =
     (url \<noteq> [] \<and>
      (case urlparse e url of
         Inl _ \<Rightarrow> False
       | Inr (scheme, netloc) \<Rightarrow>
           (scheme = ''http'' \<or> scheme = ''https'') \<and> spec_host netloc \<noteq> []))"

text \<open>
  Environments with a second writer on the database file: between the handler's lookup and
  its INSERT it adds a mapping with the code \<open>ab\<close>, respectively \<open>aaaaaa\<close>.
\<close>

definition env_race :: env where
  "env_race = \<lparr>env_today = ''2024-01-01'', env_now = 1704067200, env_rnd = (\<lambda>i. 0),
       env_other_writers = (\<lambda>d. d\<lparr>urls := urls d @ [row_ab], url_seq := url_seq d + 1\<rparr>),
       env_bracket_ok = (\<lambda>h. True)\<rparr>"

definition env_race_random :: env where
  "env_race_random = \<lparr>env_today = ''2024-01-01'', env_now = 1704067200, env_rnd = (\<lambda>i. 0),
       env_other_writers = (\<lambda>d. d\<lparr>urls := urls d @ [row_aaaaaa], url_seq := url_seq d + 1\<rparr>),
       env_bracket_ok = (\<lambda>h. True)\<rparr>"

text \<open>\<^verbatim>\<open>POST /api/shorten {"url": 5}\<close>\<close>

definition req_int :: request where
  "req_int = \<lparr>req_is_json = True, req_json = Some [(''url'', JInt 5)],
       req_url_root = ''http://localhost:5000/''\<rparr>"

subsection \<open>Answers of the allocation\<close>

text \<open>The reasons that \<^verbatim>\<open>shorten_url\<close> gives with status 400.\<close>

definition client_error_reasons :: "string list" where
  "client_error_reasons =
     [''Content-Type must be application/json'',
      ''Invalid JSON data'',
      ''URL is required'',
      ''Invalid URL format. Must start with http:// or https://'',
      ''Custom code can only contain letters, numbers, hyphens, and underscores'',
      ''Custom code must be 20 characters or less'',
      ''Custom code already exists. Please choose a different one.'']"

text \<open>The specification's class of client errors: a status from 400 to 499.\<close>

definition spec_is_4xx :: "nat \<Rightarrow> bool" where
  "spec_is_4xx n = (400 \<le> n \<and> n < 500)"

subsection \<open>Recent mappings in the words of the specification\<close>

text \<open>
  Two mappings created within the same second: \<open>first\<close>, then \<open>second\<close>.
\<close>

definition row_first :: url_row where
  "row_first = \<lparr>row_id = 1, short_code = ''first'', original_url = ''https://x.com'',
                clicks = 0, created_at = 1704067200\<rparr>"

definition row_second :: url_row where
  "row_second = \<lparr>row_id = 2, short_code = ''second'', original_url = ''https://x.com'',
                 clicks = 0, created_at = 1704067200\<rparr>"

definition st_tie :: state where
  "st_tie = \<lparr>store = \<lparr>urls = [row_first, row_second], daily_stats = [], url_seq = 2\<rparr>,
             lock_held = False, rng_pos = 0\<rparr>"

text \<open>
  The specification's order: a mapping created later (the ids are assigned in order of
  creation) stands before every mapping created earlier.
\<close>

definition spec_newest_first :: "url_row list \<Rightarrow> bool" where
  "spec_newest_first rows = sorted_wrt (\<lambda>a b. row_id a > row_id b) rows"

text \<open>Eleven mappings, one per second: the \<open>i\<close>-th has the code of \<open>i\<close> letters \<open>a\<close>.\<close>

definition row_at :: "nat \<Rightarrow> url_row" where
  "row_at i = \<lparr>row_id = i, short_code = replicate i (CHR ''a''),
              original_url = ''https://x.com'', clicks = 0, created_at = 1704067200 + i\<rparr>"

definition st_eleven :: state where
  "st_eleven = \<lparr>store = \<lparr>urls = map row_at [1, 2, 3, 4, 5, 6, 7, 8, 9, 10, 11],
                          daily_stats = [], url_seq = 11\<rparr>,
                lock_held = False, rng_pos = 0\<rparr>"

subsection \<open>Custom codes in the words of the specification\<close>

text \<open>
  The specification's syntax of a short code, \<^verbatim>\<open>^[A-Za-z0-9_-]+$\<close> read as a rule on
  the whole text: one or more characters, each a letter, a digit, a hyphen or an underscore.
\<close>

definition spec_code_chars :: "string \<Rightarrow> bool" where
  "spec_code_chars s = (s \<noteq> [] \<and> list_all code_char s)"

text \<open>The request with the key \<open>custom_code\<close> removed from its JSON object.\<close>

definition without_custom_code :: "request \<Rightarrow> request" where
  "without_custom_code req =
     req\<lparr>req_json := map_option (filter (\<lambda>kv. fst kv \<noteq> ''custom_code'')) (req_json req)\<rparr>"

text \<open>
  Lines 113 to 121 of \<^verbatim>\<open>shorten_url\<close> have read the request: it is a JSON object whose
  \<open>url\<close> and \<open>custom_code\<close>, each stripped, are \<open>url\<close> and \<open>cc\<close>.
\<close>

definition reads_as :: "request \<Rightarrow> string \<Rightarrow> string \<Rightarrow> bool" where
  "reads_as req url cc =
     (req_is_json req \<and>
      (\<exists>data. req_json req = Some data
         \<and> or_empty_strip (map_of data ''url'') = Inr url
         \<and> or_empty_strip (map_of data ''custom_code'') = Inr cc))"

text \<open>The short code \<open>zz\<close> followed by a newline, as \<^verbatim>\<open>GET /zz%0A\<close> delivers it.\<close>

definition code_zz_newline :: string where
  "code_zz_newline = [CHR ''z'', CHR ''z'', CHR 0x0A]"

section \<open>Properties\<close>

subsection \<open>Evaluation and helper facts\<close>

lemmas url_defs = is_valid_url_def urlparse_def split_scheme_def splitnetloc_def
  remove_unsafe_def lstrip_c0_def scheme_chars_def ascii_letters_def ascii_lowercase_def
  ascii_uppercase_def digits_def lower_def

lemmas strip_defs = strip_def isspace_def whitespace_def

lemmas code_defs = re_match_code_def code_char_def ascii_letters_def ascii_lowercase_def
  ascii_uppercase_def digits_def

lemma is_valid_url_examples:
  "\<not> is_valid_url e ''not-a-url''"
  "\<not> is_valid_url e ''ftp://x.com''"
  "is_valid_url e ''https://x.com''"
  "is_valid_url e ''http://:80''"
  "is_valid_url e ''HTTP://x''"
  by (simp_all add: url_defs)

lemma update_daily_stats_held:
  "lock_held st \<Longrightarrow> update_daily_stats e n_urls n_clicks st = (Blocked, st)"
  by (simp add: update_daily_stats_def)

lemma update_daily_stats_free:
  "\<not> lock_held st \<Longrightarrow> update_daily_stats e n_urls n_clicks st =
     (Returned (), st\<lparr>store := upsert_daily (env_today e) n_urls n_clicks (store st)\<rparr>)"
  by (simp add: update_daily_stats_def acquire_def release_def)

lemma choose_code_lock:
  "choose_code e custom_code st = (r, st1) \<Longrightarrow> lock_held st1 = lock_held st"
  by (auto simp: choose_code_def split: if_splits prod.splits)

lemma choose_code_store:
  "choose_code e custom_code st = (r, st1) \<Longrightarrow> store st1 = store st"
  by (auto simp: choose_code_def split: if_splits prod.splits)

lemma shorten_url_valid:
  assumes "req_is_json req" and "req_json req = Some data"
    and "or_empty_strip (map_of data ''url'') = Inr url"
    and "or_empty_strip (map_of data ''custom_code'') = Inr custom_code"
    and "url \<noteq> []" and "is_valid_url e url" and "\<not> lock_held st"
  shows "shorten_url e req st = shorten_locked e req url custom_code (acquire st)"
  using assms by (simp add: shorten_url_def)

text \<open>
  Inside \<^verbatim>\<open>shorten_url\<close> and \<^verbatim>\<open>redirect_to_url\<close> the lock is held when
  \<^verbatim>\<open>update_daily_stats\<close> asks for it, so neither handler ever returns its success
  response.
\<close>

lemma shorten_locked_not_200:
  assumes "lock_held st"
  shows "fst (shorten_locked e req url custom_code st) \<noteq> Returned (Response 200 b)"
proof -
  obtain r st1 where c: "choose_code e custom_code st = (r, st1)"
    by (cases "choose_code e custom_code st")
  then have l: "lock_held st1"
    using assms choose_code_lock by blast
  show ?thesis
  proof (cases r)
    case (Inl early)
    then have "early \<noteq> Response 200 b"
      using c by (auto simp: choose_code_def split: if_splits prod.splits)
    then show ?thesis
      using c Inl by (simp add: shorten_locked_def)
  next
    case (Inr code)
    show ?thesis
      using c Inr l
      by (auto simp: shorten_locked_def Let_def update_daily_stats_held server_error_def
          split: sum.splits)
  qed
qed

lemma shorten_url_never_succeeds:
  "fst (shorten_url e req st) \<noteq> Returned (Response 200 b)"
  using shorten_locked_not_200 [of "acquire st" e req _ _ b]
  by (auto simp: shorten_url_def server_error_def acquire_def split: option.splits sum.splits)

lemma redirect_never_redirects:
  "fst (redirect_to_url e code st) \<noteq> Returned (Response 302 b)"
  by (auto simp: redirect_to_url_def Let_def acquire_def update_daily_stats_held
      split: option.splits)

lemma shorten_custom_eval:
  "shorten_url env0 req_custom st0 = (Blocked, st_ab\<lparr>lock_held := True\<rparr>)"
  by (simp add: shorten_url_def req_custom_def st0_def env0_def strip_defs url_defs
      shorten_locked_def choose_code_def re_match_code_def code_char_def acquire_def
      select_by_code_def empty_db_def insert_url_def update_daily_stats_def st_ab_def
      db_ab_def row_ab_def)

lemma redirect_ab_eval:
  "redirect_to_url env0 ''ab'' st_ab =
     (Blocked, \<lparr>store = db_ab\<lparr>urls := [row_ab\<lparr>clicks := 1\<rparr>]\<rparr>, lock_held = True, rng_pos = 0\<rparr>)"
  by (simp add: redirect_to_url_def code_defs acquire_def select_by_code_def st_ab_def
      db_ab_def row_ab_def increment_clicks_def update_daily_stats_def)

subsection \<open>Returning to the caller\<close>

text \<open>
  C1. The claim: every core operation returns to its caller, in particular a valid
  allocation request and a redirect of an existing code, also across the step where the
  daily-stat update is called while the handler holds the lock. Evaluated on the code: the
  allocation of \<open>https://x.com\<close> with custom code \<open>ab\<close> on the empty database inserts the
  mapping and then waits for its own lock for ever, and so does the redirect of \<open>ab\<close>
  after it has committed the click.
\<close>

theorem successful_write_never_returns:
  "shorten_url env0 req_custom st0 = (Blocked, st_ab\<lparr>lock_held := True\<rparr>) \<and>
   redirect_to_url env0 ''ab'' st_ab =
     (Blocked, \<lparr>store = db_ab\<lparr>urls := [row_ab\<lparr>clicks := 1\<rparr>]\<rparr>, lock_held = True, rng_pos = 0\<rparr>)"
  by (simp add: shorten_custom_eval redirect_ab_eval)

subsection \<open>Consistency of the statistics\<close>

text \<open>
  C2. The claim: whenever no operation is in flight, the daily rows add up to the number
  of mappings and to their clicks, and a redirect commits its two increments together.
  Evaluated on the code: the empty database satisfies the invariant; the allocation of
  \<open>ab\<close> leaves the mapping committed and no daily row, a database that violates it; and
  the redirect of \<open>ab\<close> leaves one click on the mapping and none in the daily table,
  which is what \<^verbatim>\<open>get_stats\<close> then reports.
\<close>

theorem stats_diverge_after_write:
  "spec_stats_consistent (store st0) \<and>
   store (snd (shorten_url env0 req_custom st0)) = db_ab \<and>
   \<not> spec_stats_consistent db_ab \<and>
   get_stats env0 (snd (redirect_to_url env0 ''ab'' st_ab)) = Response 200 (Stats_json 1 1 0 0)"
proof -
  have "spec_stats_consistent (store st0)"
    by (simp add: spec_stats_consistent_def st0_def empty_db_def)
  moreover have "store (snd (shorten_url env0 req_custom st0)) = db_ab"
    by (simp add: shorten_custom_eval st_ab_def)
  moreover have "\<not> spec_stats_consistent db_ab"
    by (simp add: spec_stats_consistent_def db_ab_def)
  moreover have "get_stats env0 (snd (redirect_to_url env0 ''ab'' st_ab)) =
      Response 200 (Stats_json 1 1 0 0)"
    by (simp add: redirect_ab_eval get_stats_def db_ab_def row_ab_def)
  ultimately show ?thesis
    by simp
qed

subsection \<open>The retry budget of the random path\<close>

lemma snd_generate_short_code [simp]: "snd (generate_short_code e pos) = pos + 6"
  by (simp add: generate_short_code_def)

lemma candidate_shift: "candidate e (pos + 6) j = candidate e pos (Suc j)"
  by (simp add: candidate_def add.assoc)

lemma random_loop_first_free:
  "attempts + k < 10 \<Longrightarrow>
   (\<forall>j<k. select_by_code d (candidate e pos j) \<noteq> None) \<Longrightarrow>
   select_by_code d (candidate e pos k) = None \<Longrightarrow>
   random_loop e d attempts code pos = (attempts + k, candidate e pos k, pos + 6 * (k + 1))"
proof (induction k arbitrary: attempts code pos)
  case 0
  then show ?case
    by (subst random_loop.simps) (simp add: candidate_def)
next
  case (Suc k)
  have taken0: "select_by_code d (fst (generate_short_code e pos)) \<noteq> None"
    using Suc.prems(2) by (auto simp: candidate_def dest: spec [of _ 0])
  have "random_loop e d (attempts + 1) (fst (generate_short_code e pos)) (pos + 6)
        = (attempts + 1 + k, candidate e (pos + 6) k, pos + 6 + 6 * (k + 1))"
  proof (rule Suc.IH)
    show "attempts + 1 + k < 10"
      using Suc.prems(1) by simp
    show "\<forall>j<k. select_by_code d (candidate e (pos + 6) j) \<noteq> None"
      using Suc.prems(2) by (simp add: candidate_shift)
    show "select_by_code d (candidate e (pos + 6) k) = None"
      using Suc.prems(3) by (simp add: candidate_shift)
  qed
  moreover have "attempts < 10"
    using Suc.prems(1) by simp
  ultimately show ?case
    using taken0 by (subst random_loop.simps) (simp add: candidate_shift del: not_None_eq)
qed

lemma random_loop_all_taken:
  "attempts \<le> 10 \<Longrightarrow>
   (\<forall>j<10 - attempts. select_by_code d (candidate e pos j) \<noteq> None) \<Longrightarrow>
   fst (random_loop e d attempts code pos) = 10 \<and>
   snd (snd (random_loop e d attempts code pos)) = pos + 6 * (10 - attempts)"
proof (induction e d attempts code pos rule: random_loop.induct)
  case (1 e d attempts code pos)
  show ?case
  proof (cases "attempts < 10")
    case False
    then show ?thesis
      using "1.prems" by (subst (1 2) random_loop.simps) simp
  next
    case True
    have taken0: "select_by_code d (fst (generate_short_code e pos)) \<noteq> None"
      using "1.prems"(2) True by (auto simp: candidate_def dest: spec [of _ 0])
    have rest: "\<forall>j<10 - (attempts + 1). select_by_code d (candidate e (pos + 6) j) \<noteq> None"
      using "1.prems"(2) True by (simp add: candidate_shift)
    have ih: "fst (random_loop e d (attempts + 1) (fst (generate_short_code e pos)) (pos + 6)) = 10 \<and>
       snd (snd (random_loop e d (attempts + 1) (fst (generate_short_code e pos)) (pos + 6)))
         = pos + 6 + 6 * (10 - (attempts + 1))"
      using "1.IH" [OF True taken0] True rest by simp
    have step: "random_loop e d attempts code pos =
        random_loop e d (attempts + 1) (fst (generate_short_code e pos)) (pos + 6)"
      using True taken0 by (subst random_loop.simps) (simp del: not_None_eq)
    show ?thesis
      using ih True by (simp add: step)
  qed
qed

lemma choose_code_exhausted:
  assumes "\<forall>j<10. select_by_code (store st) (candidate e (rng_pos st) j) \<noteq> None"
  shows "choose_code e [] st =
    (Inl (Response 500 (Error_json ''Unable to generate unique short code. Please try again.'')),
     st\<lparr>rng_pos := rng_pos st + 60\<rparr>)"
proof -
  have "fst (random_loop e (store st) 0 [] (rng_pos st)) = 10 \<and>
        snd (snd (random_loop e (store st) 0 [] (rng_pos st))) = rng_pos st + 6 * (10 - 0)"
    by (rule random_loop_all_taken) (use assms in simp_all)
  then show ?thesis
    by (cases "random_loop e (store st) 0 [] (rng_pos st)") (simp add: choose_code_def)
qed

lemma choose_code_first_free:
  assumes "k < 10"
    and "\<forall>j<k. select_by_code (store st) (candidate e (rng_pos st) j) \<noteq> None"
    and "select_by_code (store st) (candidate e (rng_pos st) k) = None"
  shows "choose_code e [] st =
    (Inr (candidate e (rng_pos st) k), st\<lparr>rng_pos := rng_pos st + 6 * (k + 1)\<rparr>)"
proof -
  have "random_loop e (store st) 0 [] (rng_pos st) =
        (0 + k, candidate e (rng_pos st) k, rng_pos st + 6 * (k + 1))"
    by (rule random_loop_first_free) (use assms in simp_all)
  then show ?thesis
    using assms(1) by (simp add: choose_code_def)
qed

lemma candidate_env0: "candidate env0 pos j = ''aaaaaa''"
  by (simp add: candidate_def generate_short_code_def env0_def characters_def ascii_letters_def
      ascii_lowercase_def ascii_uppercase_def digits_def upt_rec)

lemma candidate_env1_first: "candidate env1 0 0 = ''aaaaaa''"
  by (simp add: candidate_def generate_short_code_def env1_def characters_def ascii_letters_def
      ascii_lowercase_def ascii_uppercase_def digits_def upt_rec)

lemma candidate_env1_second: "candidate env1 0 (Suc 0) = ''cccccc''"
  by (simp add: candidate_def generate_short_code_def env1_def characters_def ascii_letters_def
      ascii_lowercase_def ascii_uppercase_def digits_def upt_rec)

lemma shorten_locked_inserts:
  assumes "choose_code e cc st = (Inr code, st1)" and "lock_held st"
    and "select_by_code (env_other_writers e (store st)) code = None"
  shows "shorten_locked e req url cc st =
     (Blocked,
      st1\<lparr>store := (env_other_writers e (store st))
             \<lparr>urls := urls (env_other_writers e (store st)) @
                [\<lparr>row_id = url_seq (env_other_writers e (store st)) + 1, short_code = code,
                  original_url = url, clicks = 0, created_at = env_now e\<rparr>],
              url_seq := url_seq (env_other_writers e (store st)) + 1\<rparr>\<rparr>)"
proof -
  have same: "store st1 = store st" "lock_held st1"
    using choose_code_store [OF assms(1)] choose_code_lock [OF assms(1)] assms(2) by simp_all
  show ?thesis
    using assms(1,3) same
    by (simp add: shorten_locked_def Let_def insert_url_def update_daily_stats_held)
qed

text \<open>
  C3. On the random path (a valid URL, no custom code, the lock free): when the lookup
  finds every one of the ten candidates taken, the handler answers with the error
  \<open>Unable to generate unique short code\<close> after drawing exactly ten candidates (sixty
  characters) and leaves the database and the lock as they were; and when the \<open>k\<close>-th
  candidate (\<open>k < 10\<close>) is the first free one, the loop stops there: it is the code chosen
  and, unless another writer takes it first, the code of the row that the handler inserts, and
  exactly \<open>k + 1\<close> candidates were drawn.
\<close>

theorem random_allocation_budget:
  assumes "req_is_json req" and "req_json req = Some data"
    and "or_empty_strip (map_of data ''url'') = Inr url"
    and "or_empty_strip (map_of data ''custom_code'') = Inr []"
    and "url \<noteq> []" and "is_valid_url e url" and "\<not> lock_held st"
  shows "((\<forall>j<10. select_by_code (store st) (candidate e (rng_pos st) j) \<noteq> None) \<longrightarrow>
            shorten_url e req st =
              (Returned (Response 500 (Error_json
                 ''Unable to generate unique short code. Please try again.'')),
               st\<lparr>rng_pos := rng_pos st + 60\<rparr>)) \<and>
         (k < 10 \<and> (\<forall>j<k. select_by_code (store st) (candidate e (rng_pos st) j) \<noteq> None)
            \<and> select_by_code (store st) (candidate e (rng_pos st) k) = None \<longrightarrow>
            choose_code e [] (acquire st) =
              (Inr (candidate e (rng_pos st) k),
               (acquire st)\<lparr>rng_pos := rng_pos st + 6 * (k + 1)\<rparr>)) \<and>
         (k < 10 \<and> (\<forall>j<k. select_by_code (store st) (candidate e (rng_pos st) j) \<noteq> None)
            \<and> select_by_code (store st) (candidate e (rng_pos st) k) = None
            \<and> select_by_code (env_other_writers e (store st)) (candidate e (rng_pos st) k) = None
            \<longrightarrow>
            store (snd (shorten_url e req st)) =
              (env_other_writers e (store st))
                \<lparr>urls := urls (env_other_writers e (store st)) @
                   [\<lparr>row_id = url_seq (env_other_writers e (store st)) + 1,
                     short_code = candidate e (rng_pos st) k,
                     original_url = url, clicks = 0, created_at = env_now e\<rparr>],
                 url_seq := url_seq (env_other_writers e (store st)) + 1\<rparr>
            \<and> rng_pos (snd (shorten_url e req st)) = rng_pos st + 6 * (k + 1))"
proof -
  have chosen: "choose_code e [] (acquire st) =
      (Inr (candidate e (rng_pos st) k), (acquire st)\<lparr>rng_pos := rng_pos st + 6 * (k + 1)\<rparr>)"
    if free: "k < 10 \<and> (\<forall>j<k. select_by_code (store st) (candidate e (rng_pos st) j) \<noteq> None)
      \<and> select_by_code (store st) (candidate e (rng_pos st) k) = None"
  proof -
    have "choose_code e [] (acquire st) =
        (Inr (candidate e (rng_pos (acquire st)) k),
         (acquire st)\<lparr>rng_pos := rng_pos (acquire st) + 6 * (k + 1)\<rparr>)"
      by (rule choose_code_first_free) (use free in \<open>simp_all add: acquire_def\<close>)
    then show ?thesis
      by (simp add: acquire_def)
  qed
  have exhausted: "shorten_url e req st =
      (Returned (Response 500 (Error_json
         ''Unable to generate unique short code. Please try again.'')),
       st\<lparr>rng_pos := rng_pos st + 60\<rparr>)"
    if taken: "\<forall>j<10. select_by_code (store st) (candidate e (rng_pos st) j) \<noteq> None"
  proof -
    have "choose_code e [] (acquire st) =
        (Inl (Response 500 (Error_json ''Unable to generate unique short code. Please try again.'')),
         (acquire st)\<lparr>rng_pos := rng_pos (acquire st) + 60\<rparr>)"
      by (rule choose_code_exhausted) (use taken in \<open>simp add: acquire_def\<close>)
    then have "shorten_locked e req url [] (acquire st) =
        (Returned (Response 500 (Error_json
           ''Unable to generate unique short code. Please try again.'')),
         st\<lparr>rng_pos := rng_pos st + 60\<rparr>)"
      using assms(7) by (simp add: shorten_locked_def acquire_def release_def)
    then show ?thesis
      using shorten_url_valid [OF assms] by simp
  qed
  have stored: "store (snd (shorten_url e req st)) =
        (env_other_writers e (store st))
          \<lparr>urls := urls (env_other_writers e (store st)) @
             [\<lparr>row_id = url_seq (env_other_writers e (store st)) + 1,
               short_code = candidate e (rng_pos st) k,
               original_url = url, clicks = 0, created_at = env_now e\<rparr>],
           url_seq := url_seq (env_other_writers e (store st)) + 1\<rparr>
      \<and> rng_pos (snd (shorten_url e req st)) = rng_pos st + 6 * (k + 1)"
    if free: "k < 10 \<and> (\<forall>j<k. select_by_code (store st) (candidate e (rng_pos st) j) \<noteq> None)
      \<and> select_by_code (store st) (candidate e (rng_pos st) k) = None
      \<and> select_by_code (env_other_writers e (store st)) (candidate e (rng_pos st) k) = None"
  proof -
    have c: "choose_code e [] (acquire st) =
        (Inr (candidate e (rng_pos st) k), (acquire st)\<lparr>rng_pos := rng_pos st + 6 * (k + 1)\<rparr>)"
      using chosen free by blast
    have "shorten_locked e req url [] (acquire st) =
       (Blocked,
        ((acquire st)\<lparr>rng_pos := rng_pos st + 6 * (k + 1)\<rparr>)
          \<lparr>store := (env_other_writers e (store (acquire st)))
             \<lparr>urls := urls (env_other_writers e (store (acquire st))) @
                [\<lparr>row_id = url_seq (env_other_writers e (store (acquire st))) + 1,
                  short_code = candidate e (rng_pos st) k,
                  original_url = url, clicks = 0, created_at = env_now e\<rparr>],
              url_seq := url_seq (env_other_writers e (store (acquire st))) + 1\<rparr>\<rparr>)"
      by (rule shorten_locked_inserts [OF c]) (use free in \<open>simp_all add: acquire_def\<close>)
    then show ?thesis
      using shorten_url_valid [OF assms] by (simp add: acquire_def)
  qed
  show ?thesis
    using chosen exhausted stored by blast
qed

theorem random_allocation_budget_witness:
  "shorten_url env0 req_random st_taken =
     (Returned (Response 500 (Error_json
        ''Unable to generate unique short code. Please try again.'')),
      st_taken\<lparr>rng_pos := 60\<rparr>) \<and>
   choose_code env1 [] (acquire st_taken) =
     (Inr ''cccccc'', (acquire st_taken)\<lparr>rng_pos := 12\<rparr>) \<and>
   store (snd (shorten_url env1 req_random st_taken)) =
     \<lparr>urls = [row_aaaaaa,
              \<lparr>row_id = 2, short_code = ''cccccc'', original_url = ''https://x.com'',
               clicks = 0, created_at = 1704067200\<rparr>],
      daily_stats = [], url_seq = 2\<rparr>"
proof -
  have req: "req_is_json req_random"
    "req_json req_random = Some [(''url'', JStr ''https://x.com'')]"
    "or_empty_strip (map_of [(''url'', JStr ''https://x.com'')] ''url'') = Inr ''https://x.com''"
    "or_empty_strip (map_of [(''url'', JStr ''https://x.com'')] ''custom_code'') = Inr []"
    "''https://x.com'' \<noteq> []"
    by (simp_all add: req_random_def strip_defs)
  have free: "\<not> lock_held st_taken" and pos: "rng_pos st_taken = 0"
    by (simp_all add: st_taken_def)
  have taken: "select_by_code (store st_taken) ''aaaaaa'' \<noteq> None"
    and open_c: "select_by_code (store st_taken) ''cccccc'' = None"
    and quiet: "env_other_writers env1 (store st_taken) = store st_taken"
    by (simp_all add: st_taken_def select_by_code_def row_aaaaaa_def env1_def)
  have all_taken: "\<forall>j<10. select_by_code (store st_taken) (candidate env0 (rng_pos st_taken) j) \<noteq> None"
    using taken by (simp add: candidate_env0 del: not_None_eq)
  have first_free: "(1::nat) < 10 \<and>
      (\<forall>j<1. select_by_code (store st_taken) (candidate env1 (rng_pos st_taken) j) \<noteq> None) \<and>
      select_by_code (store st_taken) (candidate env1 (rng_pos st_taken) 1) = None \<and>
      select_by_code (env_other_writers env1 (store st_taken))
        (candidate env1 (rng_pos st_taken) 1) = None"
    using taken open_c
    by (simp add: quiet pos candidate_env1_first candidate_env1_second del: not_None_eq)
  note t0 = random_allocation_budget [OF req is_valid_url_examples(3) free, of env0 0]
  note t1 = random_allocation_budget [OF req is_valid_url_examples(3) free, of env1 1]
  have a: "shorten_url env0 req_random st_taken =
     (Returned (Response 500 (Error_json
        ''Unable to generate unique short code. Please try again.'')),
      st_taken\<lparr>rng_pos := rng_pos st_taken + 60\<rparr>)"
    using t0 all_taken by blast
  have b: "choose_code env1 [] (acquire st_taken) =
     (Inr (candidate env1 (rng_pos st_taken) 1),
      (acquire st_taken)\<lparr>rng_pos := rng_pos st_taken + 6 * (1 + 1)\<rparr>)"
    using t1 first_free by blast
  have c: "store (snd (shorten_url env1 req_random st_taken)) =
      (env_other_writers env1 (store st_taken))
        \<lparr>urls := urls (env_other_writers env1 (store st_taken)) @
           [\<lparr>row_id = url_seq (env_other_writers env1 (store st_taken)) + 1,
             short_code = candidate env1 (rng_pos st_taken) 1,
             original_url = ''https://x.com'', clicks = 0, created_at = env_now env1\<rparr>],
         url_seq := url_seq (env_other_writers env1 (store st_taken)) + 1\<rparr>"
    using t1 first_free by blast
  have d: "(store st_taken)
        \<lparr>urls := urls (store st_taken) @
           [\<lparr>row_id = url_seq (store st_taken) + 1,
             short_code = ''cccccc'',
             original_url = ''https://x.com'', clicks = 0, created_at = env_now env1\<rparr>],
         url_seq := url_seq (store st_taken) + 1\<rparr> =
      \<lparr>urls = [row_aaaaaa,
              \<lparr>row_id = 2, short_code = ''cccccc'', original_url = ''https://x.com'',
               clicks = 0, created_at = 1704067200\<rparr>],
      daily_stats = [], url_seq = 2\<rparr>"
    by (simp add: st_taken_def env1_def)
  show ?thesis
    using a b c d by (simp add: pos quiet candidate_env1_second)
qed

subsection \<open>Clearing all data\<close>

text \<open>
  C7. After \<^verbatim>\<open>clear_all_data\<close> has completed, \<^verbatim>\<open>get_recent_urls\<close> returns the empty
  list and \<^verbatim>\<open>get_stats\<close> returns zero in all four fields: both tables are empty.
\<close>

theorem clear_all_leaves_nothing:
  assumes "fst (clear_all_data st) = Returned r"
  shows "get_recent_urls req (snd (clear_all_data st)) = Response 200 (Recent_json []) \<and>
         get_stats e (snd (clear_all_data st)) = Response 200 (Stats_json 0 0 0 0) \<and>
         urls (store (snd (clear_all_data st))) = [] \<and>
         daily_stats (store (snd (clear_all_data st))) = []"
proof -
  have free: "\<not> lock_held st"
    using assms by (auto simp: clear_all_data_def split: if_splits)
  then have after: "snd (clear_all_data st) =
      st\<lparr>store := (store st)\<lparr>urls := [], daily_stats := []\<rparr>\<rparr>"
    by (simp add: clear_all_data_def acquire_def release_def)
  show ?thesis
    by (simp add: after get_recent_urls_def recent_rows_def get_stats_def)
qed

theorem clear_all_leaves_nothing_witness:
  "fst (clear_all_data st_ab) = Returned (Response 200 (Message_json ''All data cleared successfully'')) \<and>
   get_recent_urls req_random (snd (clear_all_data st_ab)) = Response 200 (Recent_json []) \<and>
   get_stats env0 (snd (clear_all_data st_ab)) = Response 200 (Stats_json 0 0 0 0)"
proof -
  have returned: "fst (clear_all_data st_ab) =
      Returned (Response 200 (Message_json ''All data cleared successfully''))"
    by (simp add: clear_all_data_def st_ab_def Let_def)
  show ?thesis
    using returned clear_all_leaves_nothing [OF returned, of req_random env0] by simp
qed

subsection \<open>The format check of the redirect\<close>

text \<open>
  \<^verbatim>\<open>redirect_to_url\<close> answers a code that \<^verbatim>\<open>re.match\<close> refuses with status 400
  before it takes the lock or reads the database, and any other answer implies that
  \<^verbatim>\<open>re.match\<close> accepted the code.
\<close>

lemma redirect_format_check:
  "(\<not> re_match_code code \<longrightarrow>
      redirect_to_url e code st =
        (Returned (Response 400 (Text ''Invalid short code format'')), st)) \<and>
   (fst (redirect_to_url e code st) = Returned r \<and> status_of r \<noteq> 400 \<longrightarrow>
      re_match_code code)"
  by (auto simp: redirect_to_url_def)

lemma redirect_newline_eval:
  "redirect_to_url env0 code_zz_newline st_ab = (Returned (Response 404 Not_found_page), st_ab)"
  by (simp add: redirect_to_url_def code_zz_newline_def code_defs acquire_def release_def
      select_by_code_def st_ab_def db_ab_def row_ab_def)

text \<open>
  C10. The claim: a requested code that does not match \<^verbatim>\<open>^[A-Za-z0-9_-]+$\<close> is
  rejected with the invalid-format answer before any lookup, so only syntactically valid
  codes reach the not-found page or the redirect. Evaluated on the code: the code \<open>zz\<close>
  followed by a newline is not a word over letters, digits, hyphen and underscore, yet the
  handler's check lets it pass (Python's \<^verbatim>\<open>$\<close> accepts a final newline), the handler takes
  the lock, looks the code up and answers with the not-found page.
\<close>

theorem redirect_newline_reaches_lookup:
  "\<not> spec_code_chars code_zz_newline \<and>
   redirect_to_url env0 code_zz_newline st_ab =
     (Returned (Response 404 Not_found_page), st_ab)"
  by (simp add: redirect_newline_eval)
    (simp add: spec_code_chars_def code_zz_newline_def code_defs)

subsection \<open>Custom codes\<close>

text \<open>
  The custom code that \<^verbatim>\<open>shorten_url\<close> tests has been stripped, so it does not end in
  a newline, and the regular expression accepts it exactly when it is a non-empty word over
  letters, digits, hyphen and underscore.
\<close>

lemma strip_last_not_space:
  assumes "strip s \<noteq> []"
  shows "\<not> isspace (last (strip s))"
proof -
  let ?t = "dropWhile isspace (rev (dropWhile isspace s))"
  have "?t \<noteq> []"
    using assms by (simp add: strip_def)
  then have "\<not> isspace (hd ?t)"
    by (rule hd_dropWhile)
  moreover have "last (strip s) = hd ?t"
    using \<open>?t \<noteq> []\<close> by (simp add: strip_def last_rev)
  ultimately show ?thesis
    by simp
qed

lemma re_match_code_no_newline:
  assumes "t = [] \<or> \<not> isspace (last t)"
  shows "re_match_code t = (t \<noteq> [] \<and> list_all code_char t)"
proof (cases "dropWhile code_char t = []")
  case True
  then have "list_all code_char t"
    by (simp add: dropWhile_eq_Nil_conv list_all_iff)
  then have tw: "takeWhile code_char t = t"
    by (simp add: takeWhile_eq_all_conv list_all_iff)
  show ?thesis
    unfolding re_match_code_def tw True using \<open>list_all code_char t\<close> by simp
next
  case False
  then have not_all: "\<not> list_all code_char t"
    by (simp add: dropWhile_eq_Nil_conv list_all_iff)
  have "dropWhile code_char t \<noteq> [CHR 0x0A]"
  proof
    assume nl: "dropWhile code_char t = [CHR 0x0A]"
    have "t = takeWhile code_char t @ dropWhile code_char t"
      by simp
    then have "t = takeWhile code_char t @ [CHR 0x0A]"
      using nl by simp
    then have "t \<noteq> []" and "last t = CHR 0x0A"
      by (auto intro: last_snoc [THEN ssubst, rotated] simp: last_snoc dest: arg_cong [of _ _ last])
    then show False
      using assms by (simp add: isspace_def whitespace_def)
  qed
  then show ?thesis
    using False not_all by (simp add: re_match_code_def)
qed

lemma re_match_code_stripped:
  assumes "or_empty_strip v = Inr cc"
  shows "re_match_code cc = (cc \<noteq> [] \<and> list_all code_char cc)"
proof -
  have "cc = [] \<or> (\<exists>s. cc = strip s)"
    using assms by (cases v rule: or_empty_strip.cases) (auto split: if_splits)
  then have "cc = [] \<or> \<not> isspace (last cc)"
    using strip_last_not_space by auto
  then show ?thesis
    by (rule re_match_code_no_newline)
qed

lemma req_with_code_fields:
  "req_is_json (req_with_code c)"
  "req_json (req_with_code c) =
     Some [(''url'', JStr ''https://x.com''), (''custom_code'', JStr c)]"
  "or_empty_strip (map_of [(''url'', JStr ''https://x.com''), (''custom_code'', JStr c)] ''url'')
     = Inr ''https://x.com''"
  "or_empty_strip
     (map_of [(''url'', JStr ''https://x.com''), (''custom_code'', JStr c)] ''custom_code'')
     = Inr (strip c)"
  by (simp_all add: req_with_code_def strip_defs)

lemma map_of_filter_key:
  "map_of (filter (\<lambda>kv. fst kv \<noteq> k) xs) k' = (if k' = k then None else map_of xs k')"
  by (induction xs) auto

lemma shorten_locked_url_root:
  assumes "req_url_root req = req_url_root req'"
  shows "shorten_locked e req url cc st = shorten_locked e req' url cc st"
  unfolding shorten_locked_def assms by (rule refl)

lemma shorten_url_blank_custom_code:
  assumes "req_json req = Some data" and "or_empty_strip (map_of data ''custom_code'') = Inr []"
  shows "shorten_url e req st = shorten_url e (without_custom_code req) st"
proof -
  have root: "req_url_root req = req_url_root (without_custom_code req)"
    and js: "req_is_json (without_custom_code req) = req_is_json req"
    and data: "req_json (without_custom_code req) =
        Some (filter (\<lambda>kv. fst kv \<noteq> ''custom_code'') data)"
    by (simp_all add: without_custom_code_def assms(1))
  have url: "map_of (filter (\<lambda>kv. fst kv \<noteq> ''custom_code'') data) ''url'' = map_of data ''url''"
    and cc: "map_of (filter (\<lambda>kv. fst kv \<noteq> ''custom_code'') data) ''custom_code'' = None"
    by (simp_all add: map_of_filter_key)
  show ?thesis
    unfolding shorten_url_def js data assms(1) url cc option.case assms(2) or_empty_strip.simps
      sum.case shorten_locked_url_root [OF root]
    by (rule refl)
qed

lemma reads_as_locked:
  assumes "reads_as req url cc" and "url \<noteq> []" and "is_valid_url e url" and "\<not> lock_held st"
  shows "shorten_url e req st = shorten_locked e req url cc (acquire st)"
proof -
  obtain data where "req_is_json req" "req_json req = Some data"
    "or_empty_strip (map_of data ''url'') = Inr url"
    "or_empty_strip (map_of data ''custom_code'') = Inr cc"
    using assms(1) unfolding reads_as_def by (elim conjE exE)
  then show ?thesis
    using assms(2-4) by (rule shorten_url_valid)
qed

lemma reads_as_empty_url:
  assumes "reads_as req url cc" and "url = []"
  shows "shorten_url e req st =
     (Returned (Response 400 (Error_json ''URL is required'')), st)"
proof -
  obtain data where "req_is_json req" "req_json req = Some data"
    "or_empty_strip (map_of data ''url'') = Inr url"
    "or_empty_strip (map_of data ''custom_code'') = Inr cc"
    using assms(1) unfolding reads_as_def by (elim conjE exE)
  then show ?thesis
    using assms(2) by (simp add: shorten_url_def)
qed

lemma reads_as_invalid_url:
  assumes "reads_as req url cc" and "url \<noteq> []" and "\<not> is_valid_url e url"
  shows "shorten_url e req st =
     (Returned (Response 400 (Error_json
        ''Invalid URL format. Must start with http:// or https://'')), st)"
proof -
  obtain data where "req_is_json req" "req_json req = Some data"
    "or_empty_strip (map_of data ''url'') = Inr url"
    "or_empty_strip (map_of data ''custom_code'') = Inr cc"
    using assms(1) unfolding reads_as_def by (elim conjE exE)
  then show ?thesis
    using assms(2,3) by (simp add: shorten_url_def)
qed

lemma release_acquire: "\<not> lock_held st \<Longrightarrow> release (acquire st) = st"
  by (simp add: release_def acquire_def)

lemma shorten_custom_bad_format:
  assumes "reads_as req url cc" and "url \<noteq> []" and "is_valid_url e url" and "\<not> lock_held st"
    and "cc \<noteq> []" and "\<not> re_match_code cc"
  shows "shorten_url e req st =
     (Returned (Response 400 (Error_json
        ''Custom code can only contain letters, numbers, hyphens, and underscores'')), st)"
  using assms(5,6) release_acquire [OF assms(4)]
  by (simp add: reads_as_locked [OF assms(1-4)] shorten_locked_def choose_code_def)

lemma shorten_custom_too_long:
  assumes "reads_as req url cc" and "url \<noteq> []" and "is_valid_url e url" and "\<not> lock_held st"
    and "cc \<noteq> []" and "re_match_code cc" and "length cc > 20"
  shows "shorten_url e req st =
     (Returned (Response 400 (Error_json ''Custom code must be 20 characters or less'')), st)"
  using assms(5-7) release_acquire [OF assms(4)]
  by (simp add: reads_as_locked [OF assms(1-4)] shorten_locked_def choose_code_def)

lemma shorten_custom_taken:
  assumes "reads_as req url cc" and "url \<noteq> []" and "is_valid_url e url" and "\<not> lock_held st"
    and "cc \<noteq> []" and "re_match_code cc" and "length cc \<le> 20"
    and "select_by_code (store st) cc \<noteq> None"
  shows "shorten_url e req st =
     (Returned (Response 400 (Error_json
        ''Custom code already exists. Please choose a different one.'')), st)"
proof -
  have "select_by_code (store (acquire st)) cc \<noteq> None"
    using assms(8) by (simp add: acquire_def)
  then show ?thesis
    using assms(5-7) release_acquire [OF assms(4)]
    by (simp add: reads_as_locked [OF assms(1-4)] shorten_locked_def choose_code_def
        del: not_None_eq)
qed

lemma shorten_custom_fresh:
  assumes "reads_as req url cc" and "url \<noteq> []" and "is_valid_url e url" and "\<not> lock_held st"
    and "cc \<noteq> []" and "re_match_code cc" and "length cc \<le> 20"
    and "select_by_code (store st) cc = None"
    and "select_by_code (env_other_writers e (store st)) cc = None"
  shows "shorten_url e req st =
     (Blocked,
      st\<lparr>lock_held := True,
         store := (env_other_writers e (store st))
           \<lparr>urls := urls (env_other_writers e (store st)) @
              [\<lparr>row_id = url_seq (env_other_writers e (store st)) + 1, short_code = cc,
                original_url = url, clicks = 0, created_at = env_now e\<rparr>],
            url_seq := url_seq (env_other_writers e (store st)) + 1\<rparr>\<rparr>)"
proof -
  have c: "choose_code e cc (acquire st) = (Inr cc, acquire st)"
    using assms(5-8) by (simp add: choose_code_def acquire_def)
  have "shorten_locked e req url cc (acquire st) =
     (Blocked,
      (acquire st)\<lparr>store := (env_other_writers e (store (acquire st)))
           \<lparr>urls := urls (env_other_writers e (store (acquire st))) @
              [\<lparr>row_id = url_seq (env_other_writers e (store (acquire st))) + 1,
                short_code = cc, original_url = url, clicks = 0, created_at = env_now e\<rparr>],
            url_seq := url_seq (env_other_writers e (store (acquire st))) + 1\<rparr>\<rparr>)"
    by (rule shorten_locked_inserts [OF c]) (use assms(9) in \<open>simp_all add: acquire_def\<close>)
  then show ?thesis
    by (simp add: reads_as_locked [OF assms(1-4)] acquire_def)
qed

lemma shorten_random_exhausted:
  assumes "reads_as req url []" and "url \<noteq> []" and "is_valid_url e url" and "\<not> lock_held st"
    and "\<forall>j<10. select_by_code (store st) (candidate e (rng_pos st) j) \<noteq> None"
  shows "shorten_url e req st =
     (Returned (Response 500 (Error_json
        ''Unable to generate unique short code. Please try again.'')),
      st\<lparr>rng_pos := rng_pos st + 60\<rparr>)"
proof -
  have "choose_code e [] (acquire st) =
      (Inl (Response 500 (Error_json ''Unable to generate unique short code. Please try again.'')),
       (acquire st)\<lparr>rng_pos := rng_pos (acquire st) + 60\<rparr>)"
    by (rule choose_code_exhausted) (use assms(5) in \<open>simp add: acquire_def\<close>)
  then have "shorten_locked e req url [] (acquire st) =
      (Returned (Response 500 (Error_json
         ''Unable to generate unique short code. Please try again.'')),
       st\<lparr>rng_pos := rng_pos st + 60\<rparr>)"
    using assms(4) by (simp add: shorten_locked_def acquire_def release_def)
  then show ?thesis
    by (simp add: reads_as_locked [OF assms(1-4)])
qed

lemma shorten_duplicate_insert:
  assumes "reads_as req url cc" and "url \<noteq> []" and "is_valid_url e url" and "\<not> lock_held st"
    and "choose_code e cc (acquire st) = (Inr code, st1)"
    and "select_by_code (env_other_writers e (store st)) code \<noteq> None"
  shows "shorten_url e req st =
     (Returned (Response 500 (Error_json
        ''Server error: UNIQUE constraint failed: urls.short_code'')),
      st\<lparr>store := env_other_writers e (store st), rng_pos := rng_pos st1\<rparr>)"
proof -
  have same: "store st1 = store st" "lock_held st1"
    using choose_code_store [OF assms(5)] choose_code_lock [OF assms(5)]
    by (simp_all add: acquire_def)
  have st1: "st1 = st\<lparr>lock_held := True, rng_pos := rng_pos st1\<rparr>"
    using assms(5) by (auto simp: choose_code_def acquire_def split: if_splits prod.splits)
  have "shorten_locked e req url cc (acquire st) =
      (Returned (server_error (IntegrityError ''UNIQUE constraint failed: urls.short_code'')),
       release (st1\<lparr>store := env_other_writers e (store st1)\<rparr>))"
    using assms(5,6) same by (simp add: shorten_locked_def insert_url_def Let_def)
  moreover have "release (st1\<lparr>store := env_other_writers e (store st1)\<rparr>) =
      st\<lparr>store := env_other_writers e (store st), rng_pos := rng_pos st1\<rparr>"
    using assms(4) same(1) by (subst st1) (simp add: release_def)
  ultimately show ?thesis
    by (simp add: reads_as_locked [OF assms(1-4)] server_error_def)
qed

lemma shorten_read_exception:
  assumes "req_is_json req" and "req_json req = Some data"
    and "or_empty_strip (map_of data ''url'') = Inl ex
         \<or> (\<exists>u. or_empty_strip (map_of data ''url'') = Inr u
               \<and> or_empty_strip (map_of data ''custom_code'') = Inl ex)"
  shows "shorten_url e req st =
     (Returned (Response 500 (Error_json (''Server error: '' @ str_exn ex))), st)"
  using assms by (auto simp: shorten_url_def server_error_def)

text \<open>
  C6, as the code has it. The custom code of a request with a valid URL is taken with its
  surrounding whitespace removed (the lock being free). If nothing is left, the request is
  handled as one without a custom code. Otherwise: a stripped code with a character outside
  letters, digits, hyphen and underscore, or longer than 20 characters, is answered with
  status 400 and the reason; a well-formed one that a mapping already has is answered with
  status 400 \<open>Custom code already exists\<close>; the state is unchanged in all three cases. A
  well-formed stripped code that is free is inserted by the one INSERT: the row is appended
  with zero clicks, and no random candidate is drawn.
\<close>

theorem custom_code_outcomes:
  assumes "req_is_json req" and "req_json req = Some data"
    and "or_empty_strip (map_of data ''url'') = Inr url"
    and "map_of data ''custom_code'' = Some (JStr c)"
    and "url \<noteq> []" and "is_valid_url e url" and "\<not> lock_held st"
  shows "(strip c = [] \<longrightarrow>
            shorten_url e req st = shorten_url e (without_custom_code req) st) \<and>
         (strip c \<noteq> [] \<and> \<not> spec_code_chars (strip c) \<longrightarrow>
            shorten_url e req st =
              (Returned (Response 400 (Error_json
                 ''Custom code can only contain letters, numbers, hyphens, and underscores'')), st)) \<and>
         (spec_code_chars (strip c) \<and> length (strip c) > 20 \<longrightarrow>
            shorten_url e req st =
              (Returned (Response 400 (Error_json
                 ''Custom code must be 20 characters or less'')), st)) \<and>
         (spec_code_chars (strip c) \<and> length (strip c) \<le> 20
            \<and> select_by_code (store st) (strip c) \<noteq> None \<longrightarrow>
            shorten_url e req st =
              (Returned (Response 400 (Error_json
                 ''Custom code already exists. Please choose a different one.'')), st)) \<and>
         (spec_code_chars (strip c) \<and> length (strip c) \<le> 20
            \<and> select_by_code (store st) (strip c) = None
            \<and> select_by_code (env_other_writers e (store st)) (strip c) = None \<longrightarrow>
            store (snd (shorten_url e req st)) =
              (env_other_writers e (store st))
                \<lparr>urls := urls (env_other_writers e (store st)) @
                   [\<lparr>row_id = url_seq (env_other_writers e (store st)) + 1,
                     short_code = strip c,
                     original_url = url, clicks = 0, created_at = env_now e\<rparr>],
                 url_seq := url_seq (env_other_writers e (store st)) + 1\<rparr>
            \<and> rng_pos (snd (shorten_url e req st)) = rng_pos st)"
proof -
  have cc: "or_empty_strip (map_of data ''custom_code'') = Inr (strip c)"
    by (simp add: assms(4))
  have reads: "reads_as req url (strip c)"
    unfolding reads_as_def using assms(1-3) cc by blast
  have m: "re_match_code (strip c) = spec_code_chars (strip c)"
    using re_match_code_stripped [OF cc] by (simp add: spec_code_chars_def)
  have blank: "strip c = [] \<longrightarrow>
            shorten_url e req st = shorten_url e (without_custom_code req) st"
    using shorten_url_blank_custom_code [OF assms(2), of e st] cc by simp
  have bad: "strip c \<noteq> [] \<and> \<not> spec_code_chars (strip c) \<longrightarrow>
            shorten_url e req st =
              (Returned (Response 400 (Error_json
                 ''Custom code can only contain letters, numbers, hyphens, and underscores'')), st)"
    using shorten_custom_bad_format [OF reads assms(5-7)] m by simp
  have long: "spec_code_chars (strip c) \<and> length (strip c) > 20 \<longrightarrow>
            shorten_url e req st =
              (Returned (Response 400 (Error_json
                 ''Custom code must be 20 characters or less'')), st)"
    using shorten_custom_too_long [OF reads assms(5-7)] m
    by (simp add: spec_code_chars_def)
  have taken: "spec_code_chars (strip c) \<and> length (strip c) \<le> 20
            \<and> select_by_code (store st) (strip c) \<noteq> None \<longrightarrow>
            shorten_url e req st =
              (Returned (Response 400 (Error_json
                 ''Custom code already exists. Please choose a different one.'')), st)"
    using shorten_custom_taken [OF reads assms(5-7)] m
    by (simp add: spec_code_chars_def del: not_None_eq)
  have fresh: "spec_code_chars (strip c) \<and> length (strip c) \<le> 20
            \<and> select_by_code (store st) (strip c) = None
            \<and> select_by_code (env_other_writers e (store st)) (strip c) = None \<longrightarrow>
            store (snd (shorten_url e req st)) =
              (env_other_writers e (store st))
                \<lparr>urls := urls (env_other_writers e (store st)) @
                   [\<lparr>row_id = url_seq (env_other_writers e (store st)) + 1,
                     short_code = strip c,
                     original_url = url, clicks = 0, created_at = env_now e\<rparr>],
                 url_seq := url_seq (env_other_writers e (store st)) + 1\<rparr>
            \<and> rng_pos (snd (shorten_url e req st)) = rng_pos st"
  proof
    assume a: "spec_code_chars (strip c) \<and> length (strip c) \<le> 20
            \<and> select_by_code (store st) (strip c) = None
            \<and> select_by_code (env_other_writers e (store st)) (strip c) = None"
    then have "strip c \<noteq> []" "re_match_code (strip c)"
      using m by (simp_all add: spec_code_chars_def)
    then have "shorten_url e req st =
       (Blocked,
        st\<lparr>lock_held := True,
           store := (env_other_writers e (store st))
             \<lparr>urls := urls (env_other_writers e (store st)) @
                [\<lparr>row_id = url_seq (env_other_writers e (store st)) + 1, short_code = strip c,
                  original_url = url, clicks = 0, created_at = env_now e\<rparr>],
              url_seq := url_seq (env_other_writers e (store st)) + 1\<rparr>\<rparr>)"
      using shorten_custom_fresh [OF reads assms(5-7)] a by simp
    then show "store (snd (shorten_url e req st)) =
              (env_other_writers e (store st))
                \<lparr>urls := urls (env_other_writers e (store st)) @
                   [\<lparr>row_id = url_seq (env_other_writers e (store st)) + 1,
                     short_code = strip c,
                     original_url = url, clicks = 0, created_at = env_now e\<rparr>],
                 url_seq := url_seq (env_other_writers e (store st)) + 1\<rparr>
            \<and> rng_pos (snd (shorten_url e req st)) = rng_pos st"
      by simp
  qed
  from blank bad long taken fresh show ?thesis
    by (intro conjI)
qed


lemma req_with_code_raw:
  "req_is_json (req_with_code c)"
  "req_json (req_with_code c) =
     Some [(''url'', JStr ''https://x.com''), (''custom_code'', JStr c)]"
  "or_empty_strip (map_of [(''url'', JStr ''https://x.com''), (''custom_code'', JStr c)] ''url'')
     = Inr ''https://x.com''"
  "map_of [(''url'', JStr ''https://x.com''), (''custom_code'', JStr c)] ''custom_code''
     = Some (JStr c)"
  by (simp_all add: req_with_code_def strip_defs)

lemma shorten_padded_code_eval:
  "shorten_url env0 (req_with_code '' ab'') st0 = (Blocked, st_ab\<lparr>lock_held := True\<rparr>)"
  by (simp add: shorten_url_def req_with_code_def st0_def env0_def strip_defs url_defs
      shorten_locked_def choose_code_def re_match_code_def code_char_def acquire_def
      select_by_code_def empty_db_def insert_url_def update_daily_stats_def st_ab_def
      db_ab_def row_ab_def)

lemma shorten_blank_code_eval:
  "shorten_url env0 (req_with_code '' '') st0 =
     (Blocked, \<lparr>store = \<lparr>urls = [row_aaaaaa], daily_stats = [], url_seq = 1\<rparr>,
                lock_held = True, rng_pos = 6\<rparr>)"
proof -
  have reads: "reads_as (req_with_code '' '') ''https://x.com'' []"
    by (simp add: reads_as_def req_with_code_def strip_defs)
  have c: "choose_code env0 [] (acquire st0) =
      (Inr (candidate env0 (rng_pos (acquire st0)) 0),
       (acquire st0)\<lparr>rng_pos := rng_pos (acquire st0) + 6 * (0 + 1)\<rparr>)"
    by (rule choose_code_first_free)
      (simp_all add: candidate_env0 select_by_code_def acquire_def st0_def empty_db_def)
  have "shorten_url env0 (req_with_code '' '') st0 =
      shorten_locked env0 (req_with_code '' '') ''https://x.com'' [] (acquire st0)"
    by (rule reads_as_locked [OF reads]) (simp_all add: is_valid_url_examples st0_def)
  also have "\<dots> = (Blocked,
      ((acquire st0)\<lparr>rng_pos := rng_pos (acquire st0) + 6 * (0 + 1)\<rparr>)
        \<lparr>store := (env_other_writers env0 (store (acquire st0)))
           \<lparr>urls := urls (env_other_writers env0 (store (acquire st0))) @
              [\<lparr>row_id = url_seq (env_other_writers env0 (store (acquire st0))) + 1,
                short_code = candidate env0 (rng_pos (acquire st0)) 0,
                original_url = ''https://x.com'', clicks = 0, created_at = env_now env0\<rparr>],
            url_seq := url_seq (env_other_writers env0 (store (acquire st0))) + 1\<rparr>\<rparr>)"
    by (rule shorten_locked_inserts [OF c])
      (simp_all add: candidate_env0 acquire_def st0_def empty_db_def env0_def select_by_code_def)
  also have "\<dots> = (Blocked, \<lparr>store = \<lparr>urls = [row_aaaaaa], daily_stats = [], url_seq = 1\<rparr>,
                lock_held = True, rng_pos = 6\<rparr>)"
    by (simp add: candidate_env0) (simp add: acquire_def st0_def empty_db_def env0_def
        row_aaaaaa_def)
  finally show ?thesis .
qed

theorem custom_code_outcomes_witness:
  "shorten_url env0 (req_with_code '' '') st0 =
     shorten_url env0 (without_custom_code (req_with_code '' '')) st0 \<and>
   shorten_url env0 (req_with_code '' bad code! '') st0 =
     (Returned (Response 400 (Error_json
        ''Custom code can only contain letters, numbers, hyphens, and underscores'')), st0) \<and>
   shorten_url env0 (req_with_code ''aaaaaaaaaaaaaaaaaaaaa'') st0 =
     (Returned (Response 400 (Error_json ''Custom code must be 20 characters or less'')), st0) \<and>
   shorten_url env0 (req_with_code '' ab '') st_ab =
     (Returned (Response 400 (Error_json
        ''Custom code already exists. Please choose a different one.'')), st_ab) \<and>
   store (snd (shorten_url env0 (req_with_code '' ab'') st0)) = db_ab \<and>
   rng_pos (snd (shorten_url env0 (req_with_code '' ab'') st0)) = 0"
proof -
  have url: "''https://x.com'' \<noteq> []" "is_valid_url env0 ''https://x.com''"
    by (simp_all add: is_valid_url_examples)
  have free: "\<not> lock_held st0" "\<not> lock_held st_ab"
    by (simp_all add: st0_def st_ab_def)
  have s0: "strip '' '' = []"
    and s1: "strip '' bad code! '' = ''bad code!''"
    and s2: "strip ''aaaaaaaaaaaaaaaaaaaaa'' = ''aaaaaaaaaaaaaaaaaaaaa''"
    and s3: "strip '' ab '' = ''ab''"
    and s4: "strip '' ab'' = ''ab''"
    by (simp_all add: strip_defs)
  have c1: "''bad code!'' \<noteq> [] \<and> \<not> spec_code_chars ''bad code!''"
    and c2: "spec_code_chars ''aaaaaaaaaaaaaaaaaaaaa'' \<and> length ''aaaaaaaaaaaaaaaaaaaaa'' > 20"
    and c3: "spec_code_chars ''ab'' \<and> length ''ab'' \<le> 20"
    by (simp_all add: spec_code_chars_def code_defs)
  have taken: "select_by_code (store st_ab) ''ab'' \<noteq> None"
    and fresh: "select_by_code (store st0) ''ab'' = None"
      "select_by_code (env_other_writers env0 (store st0)) ''ab'' = None"
    by (simp_all add: select_by_code_def st_ab_def db_ab_def row_ab_def st0_def empty_db_def
        env0_def)
  note t0 = custom_code_outcomes [OF req_with_code_raw [of "'' ''"] url free(1)]
  note t1 = custom_code_outcomes [OF req_with_code_raw [of "'' bad code! ''"] url free(1)]
  note t2 = custom_code_outcomes [OF req_with_code_raw [of "''aaaaaaaaaaaaaaaaaaaaa''"] url free(1)]
  note t3 = custom_code_outcomes [OF req_with_code_raw [of "'' ab ''"] url free(2)]
  note t4 = custom_code_outcomes [OF req_with_code_raw [of "'' ab''"] url free(1)]
  have a: "shorten_url env0 (req_with_code '' '') st0 =
     shorten_url env0 (without_custom_code (req_with_code '' '')) st0"
    by (rule t0 [THEN conjunct1, THEN mp, OF s0])
  have b: "shorten_url env0 (req_with_code '' bad code! '') st0 =
     (Returned (Response 400 (Error_json
        ''Custom code can only contain letters, numbers, hyphens, and underscores'')), st0)"
    by (rule t1 [THEN conjunct2, THEN conjunct1, unfolded s1, THEN mp, OF c1])
  have c: "shorten_url env0 (req_with_code ''aaaaaaaaaaaaaaaaaaaaa'') st0 =
     (Returned (Response 400 (Error_json ''Custom code must be 20 characters or less'')), st0)"
    by (rule t2 [THEN conjunct2, THEN conjunct2, THEN conjunct1, unfolded s2, THEN mp, OF c2])
  have d: "shorten_url env0 (req_with_code '' ab '') st_ab =
     (Returned (Response 400 (Error_json
        ''Custom code already exists. Please choose a different one.'')), st_ab)"
    by (rule t3 [THEN conjunct2, THEN conjunct2, THEN conjunct2, THEN conjunct1, unfolded s3,
          THEN mp, OF conjI [OF conjunct1 [OF c3] conjI [OF conjunct2 [OF c3] taken]]])
  have e: "store (snd (shorten_url env0 (req_with_code '' ab'') st0)) =
      (env_other_writers env0 (store st0))
        \<lparr>urls := urls (env_other_writers env0 (store st0)) @
           [\<lparr>row_id = url_seq (env_other_writers env0 (store st0)) + 1, short_code = ''ab'',
             original_url = ''https://x.com'', clicks = 0, created_at = env_now env0\<rparr>],
         url_seq := url_seq (env_other_writers env0 (store st0)) + 1\<rparr>
      \<and> rng_pos (snd (shorten_url env0 (req_with_code '' ab'') st0)) = rng_pos st0"
    by (rule t4 [THEN conjunct2, THEN conjunct2, THEN conjunct2, THEN conjunct2, unfolded s4,
          THEN mp,
          OF conjI [OF conjunct1 [OF c3] conjI [OF conjunct2 [OF c3] conjI [OF fresh]]]])
  have "(env_other_writers env0 (store st0))
        \<lparr>urls := urls (env_other_writers env0 (store st0)) @
           [\<lparr>row_id = url_seq (env_other_writers env0 (store st0)) + 1, short_code = ''ab'',
             original_url = ''https://x.com'', clicks = 0, created_at = env_now env0\<rparr>],
         url_seq := url_seq (env_other_writers env0 (store st0)) + 1\<rparr> = db_ab"
    and "rng_pos st0 = 0"
    by (simp_all add: env0_def st0_def empty_db_def db_ab_def row_ab_def)
  then have f: "store (snd (shorten_url env0 (req_with_code '' ab'') st0)) = db_ab"
    and g: "rng_pos (snd (shorten_url env0 (req_with_code '' ab'') st0)) = 0"
    using e by simp_all
  from a b c d f g show ?thesis
    by (intro conjI)
qed

text \<open>
  The claim as worded, for every supplied custom code, fails on a code with surrounding
  whitespace: \<open> ab\<close> does not match the pattern, and the mapping \<open>ab\<close> is stored. A code
  of one space does not match either, and the handler stores a random code.
\<close>

theorem custom_code_outcomes_counterexample:
  "\<not> spec_code_chars '' ab'' \<and>
   store (snd (shorten_url env0 (req_with_code '' ab'') st0)) = db_ab \<and>
   \<not> spec_code_chars '' '' \<and>
   urls (store (snd (shorten_url env0 (req_with_code '' '') st0))) = [row_aaaaaa]"
proof -
  have "\<not> spec_code_chars '' ab''" and "\<not> spec_code_chars '' ''"
    by (simp_all add: spec_code_chars_def code_defs)
  moreover have "store (snd (shorten_url env0 (req_with_code '' ab'') st0)) = db_ab"
    by (simp add: shorten_padded_code_eval st_ab_def)
  moreover have "urls (store (snd (shorten_url env0 (req_with_code '' '') st0))) = [row_aaaaaa]"
    by (simp add: shorten_blank_code_eval)
  ultimately show ?thesis
    by (intro conjI)
qed

subsection \<open>URL validation\<close>

lemma choose_code_early_responses:
  assumes "choose_code e custom_code st = (Inl early, st1)"
  shows "early \<noteq> Response 400 (Error_json ''URL is required'') \<and>
         early \<noteq> Response 400 (Error_json
           ''Invalid URL format. Must start with http:// or https://'')"
  using assms by (auto simp: choose_code_def split: if_splits prod.splits)

lemma shorten_locked_not_url_error:
  "fst (shorten_locked e req url custom_code st) \<noteq>
     Returned (Response 400 (Error_json ''URL is required'')) \<and>
   fst (shorten_locked e req url custom_code st) \<noteq>
     Returned (Response 400 (Error_json
       ''Invalid URL format. Must start with http:// or https://''))"
proof -
  obtain r st1 where c: "choose_code e custom_code st = (r, st1)"
    by (cases "choose_code e custom_code st")
  show ?thesis
  proof (cases r)
    case (Inl early)
    then show ?thesis
      using c choose_code_early_responses [of e custom_code st early st1]
      by (simp add: shorten_locked_def)
  next
    case (Inr code)
    then show ?thesis
      using c
      by (auto simp: shorten_locked_def Let_def server_error_def
          split: sum.splits prod.splits outcome.splits)
  qed
qed

lemma is_valid_url_iff:
  "is_valid_url e url =
     (\<exists>scheme netloc. urlparse e url = Inr (scheme, netloc) \<and>
        (scheme = ''http'' \<or> scheme = ''https'') \<and> netloc \<noteq> [])"
  by (auto simp: is_valid_url_def split: sum.splits)

text \<open>
  C5, as the code has it. The URL of a request, stripped, is refused with status 400 before
  the lock or the database is touched when it is empty (\<open>URL is required\<close>) or when
  \<^verbatim>\<open>is_valid_url\<close> refuses it (\<open>Invalid URL format\<close>), and in no other case does the
  handler give one of these two answers. \<^verbatim>\<open>is_valid_url\<close> accepts exactly the texts
  that \<^verbatim>\<open>urlparse\<close> splits into the scheme \<open>http\<close> or \<open>https\<close> and a non-empty netloc
  (the netloc, not the host: \<open>http://:80\<close> passes). It refuses \<open>not-a-url\<close> and
  \<open>ftp://x.com\<close> and accepts \<open>https://x.com\<close>.
\<close>

theorem url_validation:
  assumes "req_is_json req" and "req_json req = Some data"
    and "or_empty_strip (map_of data ''url'') = Inr url"
    and "or_empty_strip (map_of data ''custom_code'') = Inr cc"
  shows "(url = [] \<longrightarrow>
            shorten_url e req st =
              (Returned (Response 400 (Error_json ''URL is required'')), st)) \<and>
         (url \<noteq> [] \<and> \<not> is_valid_url e url \<longrightarrow>
            shorten_url e req st =
              (Returned (Response 400 (Error_json
                 ''Invalid URL format. Must start with http:// or https://'')), st)) \<and>
         (url \<noteq> [] \<and> is_valid_url e url \<longrightarrow>
            fst (shorten_url e req st) \<noteq>
              Returned (Response 400 (Error_json ''URL is required'')) \<and>
            fst (shorten_url e req st) \<noteq>
              Returned (Response 400 (Error_json
                ''Invalid URL format. Must start with http:// or https://''))) \<and>
         is_valid_url e url =
           (\<exists>scheme netloc. urlparse e url = Inr (scheme, netloc) \<and>
              (scheme = ''http'' \<or> scheme = ''https'') \<and> netloc \<noteq> []) \<and>
         \<not> is_valid_url e ''not-a-url'' \<and> \<not> is_valid_url e ''ftp://x.com'' \<and>
         is_valid_url e ''https://x.com''"
proof -
  have empty: "url = [] \<longrightarrow>
      shorten_url e req st = (Returned (Response 400 (Error_json ''URL is required'')), st)"
    using assms by (simp add: shorten_url_def)
  have invalid: "url \<noteq> [] \<and> \<not> is_valid_url e url \<longrightarrow>
      shorten_url e req st =
        (Returned (Response 400 (Error_json
           ''Invalid URL format. Must start with http:// or https://'')), st)"
    using assms by (simp add: shorten_url_def)
  have valid: "url \<noteq> [] \<and> is_valid_url e url \<longrightarrow>
      fst (shorten_url e req st) \<noteq> Returned (Response 400 (Error_json ''URL is required'')) \<and>
      fst (shorten_url e req st) \<noteq>
        Returned (Response 400 (Error_json
          ''Invalid URL format. Must start with http:// or https://''))"
    using assms shorten_locked_not_url_error [of e req url cc "acquire st"]
    by (simp add: shorten_url_def)
  show ?thesis
    using empty invalid valid is_valid_url_iff [of e url] is_valid_url_examples(1-3) [of e]
    by blast
qed

lemma req_with_url_fields:
  "req_is_json (req_with_url u)"
  "req_json (req_with_url u) = Some [(''url'', JStr u)]"
  "or_empty_strip (map_of [(''url'', JStr u)] ''url'') = Inr (strip u)"
  "or_empty_strip (map_of [(''url'', JStr u)] ''custom_code'') = Inr []"
  by (simp_all add: req_with_url_def)

theorem url_validation_witness:
  "shorten_url env0 (req_with_url []) st0 =
     (Returned (Response 400 (Error_json ''URL is required'')), st0) \<and>
   shorten_url env0 (req_with_url ''not-a-url'') st0 =
     (Returned (Response 400 (Error_json
        ''Invalid URL format. Must start with http:// or https://'')), st0) \<and>
   shorten_url env0 (req_with_url ''ftp://x.com'') st0 =
     (Returned (Response 400 (Error_json
        ''Invalid URL format. Must start with http:// or https://'')), st0) \<and>
   fst (shorten_url env0 (req_with_url ''https://x.com'') st0) \<noteq>
     Returned (Response 400 (Error_json
        ''Invalid URL format. Must start with http:// or https://''))"
proof -
  have s: "strip [] = []" "strip ''not-a-url'' = ''not-a-url''"
    "strip ''ftp://x.com'' = ''ftp://x.com''" "strip ''https://x.com'' = ''https://x.com''"
    by (simp_all add: strip_defs)
  note r0 = req_with_url_fields [of "[]", unfolded s]
  note r1 = req_with_url_fields [of "''not-a-url''", unfolded s]
  note r2 = req_with_url_fields [of "''ftp://x.com''", unfolded s]
  note r3 = req_with_url_fields [of "''https://x.com''", unfolded s]
  have a: "shorten_url env0 (req_with_url []) st0 =
     (Returned (Response 400 (Error_json ''URL is required'')), st0)"
    using url_validation [OF r0, of env0 st0] by blast
  have b: "shorten_url env0 (req_with_url ''not-a-url'') st0 =
     (Returned (Response 400 (Error_json
        ''Invalid URL format. Must start with http:// or https://'')), st0)"
    using url_validation [OF r1, of env0 st0] is_valid_url_examples(1) [of env0] by simp
  have c: "shorten_url env0 (req_with_url ''ftp://x.com'') st0 =
     (Returned (Response 400 (Error_json
        ''Invalid URL format. Must start with http:// or https://'')), st0)"
    using url_validation [OF r2, of env0 st0] is_valid_url_examples(2) [of env0] by simp
  have d: "fst (shorten_url env0 (req_with_url ''https://x.com'') st0) \<noteq>
     Returned (Response 400 (Error_json
        ''Invalid URL format. Must start with http:// or https://''))"
    using url_validation [OF r3, of env0 st0] is_valid_url_examples(3) [of env0] by simp
  show ?thesis
    using a b c d by simp
qed

text \<open>
  The claim as worded, with a non-empty host, fails on \<open>http://:80\<close>: the netloc is
  \<open>:80\<close>, its host is empty, and the handler stores the mapping.
\<close>

theorem url_validation_counterexample:
  "\<not> spec_valid_url env0 ''http://:80'' \<and>
   is_valid_url env0 ''http://:80'' \<and>
   store (snd (shorten_url env0 req_port st0)) =
     \<lparr>urls = [\<lparr>row_id = 1, short_code = ''ab'', original_url = ''http://:80'',
                clicks = 0, created_at = 1704067200\<rparr>],
      daily_stats = [], url_seq = 1\<rparr>"
proof -
  have "\<not> spec_valid_url env0 ''http://:80''"
    by (simp add: spec_valid_url_def spec_host_def urlparse_def split_scheme_def splitnetloc_def
        remove_unsafe_def lstrip_c0_def scheme_chars_def ascii_letters_def ascii_lowercase_def
        ascii_uppercase_def digits_def lower_def)
  moreover have "store (snd (shorten_url env0 req_port st0)) =
     \<lparr>urls = [\<lparr>row_id = 1, short_code = ''ab'', original_url = ''http://:80'',
                clicks = 0, created_at = 1704067200\<rparr>],
      daily_stats = [], url_seq = 1\<rparr>"
    by (simp add: shorten_url_def req_port_def st0_def env0_def strip_defs url_defs
        shorten_locked_def choose_code_def re_match_code_def code_char_def acquire_def
        select_by_code_def empty_db_def insert_url_def update_daily_stats_def)
  ultimately show ?thesis
    by (simp add: is_valid_url_examples)
qed

subsection \<open>A duplicate reported by the INSERT\<close>

lemma shorten_custom_race_eval:
  "shorten_url env_race req_custom st0 =
     (Returned (Response 500 (Error_json
        ''Server error: UNIQUE constraint failed: urls.short_code'')),
      st0\<lparr>store := db_ab\<rparr>)"
  by (simp add: shorten_url_def req_custom_def st0_def env_race_def strip_defs url_defs
      shorten_locked_def choose_code_def re_match_code_def code_char_def acquire_def
      release_def select_by_code_def empty_db_def insert_url_def server_error_def db_ab_def
      row_ab_def)

lemma candidate_env_race_random: "candidate env_race_random pos j = ''aaaaaa''"
  by (simp add: candidate_def generate_short_code_def env_race_random_def characters_def
      ascii_letters_def ascii_lowercase_def ascii_uppercase_def digits_def upt_rec)

lemma choose_code_race_random:
  "choose_code env_race_random [] (acquire st0) =
     (Inr ''aaaaaa'', (acquire st0)\<lparr>rng_pos := 6\<rparr>)"
proof -
  have "choose_code env_race_random [] (acquire st0) =
      (Inr (candidate env_race_random (rng_pos (acquire st0)) 0),
       (acquire st0)\<lparr>rng_pos := rng_pos (acquire st0) + 6 * (0 + 1)\<rparr>)"
    by (rule choose_code_first_free)
      (simp_all add: candidate_env_race_random select_by_code_def acquire_def st0_def
        empty_db_def)
  then show ?thesis
    by (simp add: candidate_env_race_random acquire_def st0_def)
qed

lemma shorten_random_race_eval:
  "shorten_url env_race_random req_random st0 =
     (Returned (Response 500 (Error_json
        ''Server error: UNIQUE constraint failed: urls.short_code'')),
      st0\<lparr>store := \<lparr>urls = [row_aaaaaa], daily_stats = [], url_seq = 1\<rparr>, rng_pos := 6\<rparr>)"
proof -
  have "shorten_url env_race_random req_random st0 =
      shorten_locked env_race_random req_random ''https://x.com'' [] (acquire st0)"
    by (rule shorten_url_valid [where data = "[(''url'', JStr ''https://x.com'')]"])
      (simp_all add: req_random_def strip_defs is_valid_url_examples st0_def)
  also have "\<dots> = (Returned (Response 500 (Error_json
        ''Server error: UNIQUE constraint failed: urls.short_code'')),
      st0\<lparr>store := \<lparr>urls = [row_aaaaaa], daily_stats = [], url_seq = 1\<rparr>, rng_pos := 6\<rparr>)"
    by (simp add: shorten_locked_def choose_code_race_random)
      (simp add: env_race_random_def acquire_def release_def st0_def empty_db_def
        insert_url_def select_by_code_def row_aaaaaa_def server_error_def)
  finally show ?thesis .
qed

text \<open>
  C4, as the code has it. When the code that the handler has chosen (the custom code after
  its checks, or the first free random candidate) is present in the database at the time of
  the INSERT, because another writer added it after the handler's lookup, the handler makes
  no further attempt on either path: the IntegrityError reaches the handler's catch-all, which
  releases the lock and answers with status 500 and the text of the storage error. The
  handler itself changes nothing in the database and draws no further candidate.
\<close>

theorem insert_duplicate_is_server_error:
  assumes "req_is_json req" and "req_json req = Some data"
    and "or_empty_strip (map_of data ''url'') = Inr url"
    and "or_empty_strip (map_of data ''custom_code'') = Inr cc"
    and "url \<noteq> []" and "is_valid_url e url" and "\<not> lock_held st"
    and "choose_code e cc (acquire st) = (Inr code, st1)"
    and "select_by_code (env_other_writers e (store st)) code \<noteq> None"
  shows "shorten_url e req st =
     (Returned (Response 500 (Error_json
        ''Server error: UNIQUE constraint failed: urls.short_code'')),
      st\<lparr>store := env_other_writers e (store st), rng_pos := rng_pos st1\<rparr>)"
proof -
  have same: "store st1 = store st" "lock_held st1"
    using choose_code_store [OF assms(8)] choose_code_lock [OF assms(8)]
    by (simp_all add: acquire_def)
  have st1: "st1 = st\<lparr>lock_held := True, rng_pos := rng_pos st1\<rparr>"
    using assms(8) by (auto simp: choose_code_def acquire_def split: if_splits prod.splits)
  have "shorten_locked e req url cc (acquire st) =
      (Returned (server_error (IntegrityError ''UNIQUE constraint failed: urls.short_code'')),
       release (st1\<lparr>store := env_other_writers e (store st1)\<rparr>))"
    using assms(8,9) same by (simp add: shorten_locked_def insert_url_def Let_def)
  moreover have "release (st1\<lparr>store := env_other_writers e (store st1)\<rparr>) =
      st\<lparr>store := env_other_writers e (store st), rng_pos := rng_pos st1\<rparr>"
    using assms(7) same(1) by (subst st1) (simp add: release_def)
  ultimately show ?thesis
    using shorten_url_valid [OF assms(1-7)] by (simp add: server_error_def)
qed

theorem insert_duplicate_is_server_error_witness:
  "shorten_url env_race_random req_random st0 =
     (Returned (Response 500 (Error_json
        ''Server error: UNIQUE constraint failed: urls.short_code'')),
      st0\<lparr>store := \<lparr>urls = [row_aaaaaa], daily_stats = [], url_seq = 1\<rparr>, rng_pos := 6\<rparr>)"
proof -
  have "shorten_url env_race_random req_random st0 =
     (Returned (Response 500 (Error_json
        ''Server error: UNIQUE constraint failed: urls.short_code'')),
      st0\<lparr>store := env_other_writers env_race_random (store st0),
          rng_pos := rng_pos ((acquire st0)\<lparr>rng_pos := 6\<rparr>)\<rparr>)"
  proof (rule insert_duplicate_is_server_error
      [where data = "[(''url'', JStr ''https://x.com'')]" and url = "''https://x.com''"
         and cc = "[]" and code = "''aaaaaa''"])
    show "req_is_json req_random"
      and "req_json req_random = Some [(''url'', JStr ''https://x.com'')]"
      and "or_empty_strip (map_of [(''url'', JStr ''https://x.com'')] ''url'')
            = Inr ''https://x.com''"
      and "or_empty_strip (map_of [(''url'', JStr ''https://x.com'')] ''custom_code'') = Inr []"
      and "''https://x.com'' \<noteq> []"
      by (simp_all add: req_random_def strip_defs)
    show "is_valid_url env_race_random ''https://x.com''"
      by (rule is_valid_url_examples)
    show "\<not> lock_held st0"
      by (simp add: st0_def)
    show "choose_code env_race_random [] (acquire st0) =
        (Inr ''aaaaaa'', (acquire st0)\<lparr>rng_pos := 6\<rparr>)"
      by (rule choose_code_race_random)
    show "select_by_code (env_other_writers env_race_random (store st0)) ''aaaaaa'' \<noteq> None"
      by (simp add: env_race_random_def st0_def empty_db_def select_by_code_def row_aaaaaa_def)
  qed
  then show ?thesis
    by (simp add: env_race_random_def st0_def empty_db_def)
qed

text \<open>
  The claim as worded fails on both paths: the custom code \<open>ab\<close>, taken by the other
  writer, is answered with status 500 and the storage error instead of the code-taken answer,
  and on the random path the handler draws one candidate and stops with the same answer.
\<close>

theorem insert_duplicate_counterexample:
  "shorten_url env_race req_custom st0 =
     (Returned (Response 500 (Error_json
        ''Server error: UNIQUE constraint failed: urls.short_code'')),
      st0\<lparr>store := db_ab\<rparr>) \<and>
   rng_pos (snd (shorten_url env_race_random req_random st0)) = 6 \<and>
   fst (shorten_url env_race_random req_random st0) =
     Returned (Response 500 (Error_json
        ''Server error: UNIQUE constraint failed: urls.short_code''))"
  by (simp add: shorten_custom_race_eval shorten_random_race_eval)

subsection \<open>Status codes of the allocation's failures\<close>

lemma client_error_reasons_mem:
  "''Content-Type must be application/json'' \<in> set client_error_reasons"
  "''Invalid JSON data'' \<in> set client_error_reasons"
  "''URL is required'' \<in> set client_error_reasons"
  "''Invalid URL format. Must start with http:// or https://'' \<in> set client_error_reasons"
  "''Custom code can only contain letters, numbers, hyphens, and underscores''
     \<in> set client_error_reasons"
  "''Custom code must be 20 characters or less'' \<in> set client_error_reasons"
  "''Custom code already exists. Please choose a different one.'' \<in> set client_error_reasons"
  unfolding client_error_reasons_def by (simp_all only: list.set insertI1 insertI2 insert_iff refl simp_thms)

lemma client_error_class:
  assumes "m \<in> set client_error_reasons"
  shows "status_of (Response 400 (Error_json m)) = 400 \<and>
         (\<exists>m' \<in> set client_error_reasons. body_of (Response 400 (Error_json m)) = Error_json m')"
  using assms by (simp only: response.sel) blast

lemma choose_code_early_cases:
  assumes "choose_code e custom_code st = (Inl early, st1)"
  shows "early = Response 400 (Error_json
            ''Custom code can only contain letters, numbers, hyphens, and underscores'')
       \<or> early = Response 400 (Error_json ''Custom code must be 20 characters or less'')
       \<or> early = Response 400 (Error_json
            ''Custom code already exists. Please choose a different one.'')
       \<or> early = Response 500 (Error_json
            ''Unable to generate unique short code. Please try again.'')"
proof (cases "custom_code = []")
  case True
  obtain a c p where r: "random_loop e (store st) 0 [] (rng_pos st) = (a, c, p)"
    by (cases "random_loop e (store st) 0 [] (rng_pos st)")
  show ?thesis
    using assms True r by (simp only: choose_code_def) (simp split: if_splits)
next
  case False
  show ?thesis
    using assms False by (simp only: choose_code_def) (simp split: if_splits)
qed

lemma choose_code_early_classes:
  assumes "choose_code e custom_code st = (Inl early, st1)"
  shows "(status_of early = 400 \<and> (\<exists>m \<in> set client_error_reasons. body_of early = Error_json m))
       \<or> early = Response 500 (Error_json
            ''Unable to generate unique short code. Please try again.'')"
  using choose_code_early_cases [OF assms]
    client_error_class [OF client_error_reasons_mem(5)]
    client_error_class [OF client_error_reasons_mem(6)]
    client_error_class [OF client_error_reasons_mem(7)]
  by (elim disjE) (simp_all only: simp_thms)

lemma shorten_locked_classes:
  assumes "lock_held st" and "fst (shorten_locked e req url custom_code st) = Returned r"
  shows "(status_of r = 400 \<and> (\<exists>m \<in> set client_error_reasons. body_of r = Error_json m))
       \<or> r = Response 500 (Error_json
            ''Unable to generate unique short code. Please try again.'')
       \<or> (\<exists>ex. r = Response 500 (Error_json (''Server error: '' @ str_exn ex)))"
proof -
  obtain c st1 where c: "choose_code e custom_code st = (c, st1)"
    by (cases "choose_code e custom_code st")
  then have l: "lock_held st1"
    using assms(1) choose_code_lock by blast
  show ?thesis
  proof (cases c)
    case (Inl early)
    then have "r = early"
      using c assms(2) by (simp add: shorten_locked_def)
    then show ?thesis
      using choose_code_early_classes [of e custom_code st early st1] c Inl by blast
  next
    case (Inr code)
    then have "\<exists>ex. r = server_error ex"
      using c l assms(2)
      by (auto simp: shorten_locked_def Let_def update_daily_stats_held split: sum.splits)
    then show ?thesis
      unfolding server_error_def by blast
  qed
qed

lemma shorten_url_early_cases:
  assumes "fst (shorten_url e req st) = Returned r"
  shows "r = Response 400 (Error_json ''Content-Type must be application/json'')
       \<or> r = Response 400 (Error_json ''Invalid JSON data'')
       \<or> r = Response 400 (Error_json ''URL is required'')
       \<or> r = Response 400 (Error_json
            ''Invalid URL format. Must start with http:// or https://'')
       \<or> (\<exists>ex. r = server_error ex)
       \<or> (\<exists>url cc. fst (shorten_locked e req url cc (acquire st)) = Returned r)"
proof (cases "req_is_json req")
  case False
  with assms have "r = Response 400 (Error_json ''Content-Type must be application/json'')"
    by (simp add: shorten_url_def)
  then show ?thesis
    by simp
next
  case is_json: True
  show ?thesis
  proof (cases "req_json req")
    case None
    with is_json assms have "r = Response 400 (Error_json ''Invalid JSON data'')"
      by (simp add: shorten_url_def)
    then show ?thesis
      by simp
  next
    case (Some data)
    show ?thesis
    proof (cases "or_empty_strip (map_of data ''url'')")
      case (Inl ex)
      with is_json Some assms have "r = server_error ex"
        by (simp add: shorten_url_def)
      then show ?thesis
        by blast
    next
      case url: (Inr url)
      show ?thesis
      proof (cases "or_empty_strip (map_of data ''custom_code'')")
        case (Inl ex)
        with is_json Some url assms have "r = server_error ex"
          by (simp add: shorten_url_def)
        then show ?thesis
          by blast
      next
        case cc: (Inr cc)
        show ?thesis
        proof (cases "url = []")
          case True
          with is_json Some url cc assms have "r = Response 400 (Error_json ''URL is required'')"
            by (simp add: shorten_url_def)
          then show ?thesis
            by simp
        next
          case nonempty: False
          show ?thesis
          proof (cases "is_valid_url e url")
            case False
            with is_json Some url cc nonempty assms have "r = Response 400 (Error_json
                ''Invalid URL format. Must start with http:// or https://'')"
              by (simp add: shorten_url_def)
            then show ?thesis
              by simp
          next
            case True
            with is_json Some url cc nonempty assms
            have "fst (shorten_locked e req url cc (acquire st)) = Returned r"
              by (cases "lock_held st") (simp_all add: shorten_url_def)
            then show ?thesis
              by blast
          qed
        qed
      qed
    qed
  qed
qed

lemma shorten_url_classes:
  assumes "fst (shorten_url e req st) = Returned r"
  shows "(status_of r = 400 \<and> (\<exists>m \<in> set client_error_reasons. body_of r = Error_json m))
       \<or> r = Response 500 (Error_json
            ''Unable to generate unique short code. Please try again.'')
       \<or> (\<exists>ex. r = Response 500 (Error_json (''Server error: '' @ str_exn ex)))"
    (is "?client \<or> ?exhausted \<or> ?server")
proof -
  have held: "lock_held (acquire st)"
    by (simp add: acquire_def)
  have client: "?client" if "m \<in> set client_error_reasons" "r = Response 400 (Error_json m)" for m
    using that by (intro conjI bexI [of _ m]) simp_all
  from shorten_url_early_cases [OF assms] show ?thesis
  proof (elim disjE exE)
    assume "r = Response 400 (Error_json ''Content-Type must be application/json'')"
    then have ?client
      by (rule client [OF client_error_reasons_mem(1)])
    then show ?thesis
      by (rule disjI1)
  next
    assume "r = Response 400 (Error_json ''Invalid JSON data'')"
    then have ?client
      by (rule client [OF client_error_reasons_mem(2)])
    then show ?thesis
      by (rule disjI1)
  next
    assume "r = Response 400 (Error_json ''URL is required'')"
    then have ?client
      by (rule client [OF client_error_reasons_mem(3)])
    then show ?thesis
      by (rule disjI1)
  next
    assume "r = Response 400 (Error_json
        ''Invalid URL format. Must start with http:// or https://'')"
    then have ?client
      by (rule client [OF client_error_reasons_mem(4)])
    then show ?thesis
      by (rule disjI1)
  next
    fix ex
    assume "r = server_error ex"
    then have ?server
      unfolding server_error_def by (rule exI)
    then show ?thesis
      by (intro disjI2)
  next
    fix url cc
    assume "fst (shorten_locked e req url cc (acquire st)) = Returned r"
    with held show ?thesis
      by (rule shorten_locked_classes)
  qed
qed

lemma shorten_int_eval:
  "shorten_url env0 req_int st0 =
     (Returned (Response 500 (Error_json (''Server error: '' @ no_strip ''int''))), st0)"
  by (simp add: shorten_url_def req_int_def server_error_def)

lemma shorten_exhausted_eval:
  "shorten_url env0 req_random st_taken =
     (Returned (Response 500 (Error_json
        ''Unable to generate unique short code. Please try again.'')),
      st_taken\<lparr>rng_pos := 60\<rparr>)"
proof -
  have "shorten_url env0 req_random st_taken =
      shorten_locked env0 req_random ''https://x.com'' [] (acquire st_taken)"
    by (rule shorten_url_valid [where data = "[(''url'', JStr ''https://x.com'')]"])
      (simp_all add: req_random_def strip_defs is_valid_url_examples st_taken_def)
  moreover have "choose_code env0 [] (acquire st_taken) =
      (Inl (Response 500 (Error_json ''Unable to generate unique short code. Please try again.'')),
       (acquire st_taken)\<lparr>rng_pos := rng_pos (acquire st_taken) + 60\<rparr>)"
    by (rule choose_code_exhausted)
      (simp add: candidate_env0 acquire_def st_taken_def select_by_code_def row_aaaaaa_def)
  ultimately show ?thesis
    by (simp add: shorten_locked_def acquire_def release_def st_taken_def)
qed

text \<open>
  C9, as the code has it. For a request that is a JSON object: an empty or invalid URL is
  answered with status 400 and its reason before the lock is taken; with a valid URL and
  the lock free, a custom code of the wrong format or length, or one that is taken, is
  answered with status 400 and its reason; the exhausted random path is answered with status
  500 and \<open>Unable to generate unique short code. Please try again.\<close>; a duplicate reported
  by the INSERT, and an exception raised while the request is read, are answered with status
  500 and \<open>Server error:\<close> followed by the text of the exception. Every answer that
  \<^verbatim>\<open>shorten_url\<close> returns is of one of these three kinds.
\<close>

theorem allocation_failure_statuses:
  "(reads_as req url cc \<and> url = [] \<longrightarrow>
      shorten_url e req st =
        (Returned (Response 400 (Error_json
           ''URL is required'')), st)) \<and>
   (reads_as req url cc \<and> url \<noteq> [] \<and> \<not> is_valid_url e url \<longrightarrow>
      shorten_url e req st =
        (Returned (Response 400 (Error_json
           ''Invalid URL format. Must start with http:// or https://'')), st)) \<and>
   (reads_as req url cc \<and> url \<noteq> [] \<and> is_valid_url e url \<and> \<not> lock_held st \<and> cc \<noteq> []
      \<and> \<not> re_match_code cc \<longrightarrow>
      shorten_url e req st =
        (Returned (Response 400 (Error_json
           ''Custom code can only contain letters, numbers, hyphens, and underscores'')), st)) \<and>
   (reads_as req url cc \<and> url \<noteq> [] \<and> is_valid_url e url \<and> \<not> lock_held st \<and> cc \<noteq> []
      \<and> re_match_code cc \<and> length cc > 20 \<longrightarrow>
      shorten_url e req st =
        (Returned (Response 400 (Error_json
           ''Custom code must be 20 characters or less'')), st)) \<and>
   (reads_as req url cc \<and> url \<noteq> [] \<and> is_valid_url e url \<and> \<not> lock_held st \<and> cc \<noteq> []
      \<and> re_match_code cc \<and> length cc \<le> 20 \<and> select_by_code (store st) cc \<noteq> None \<longrightarrow>
      shorten_url e req st =
        (Returned (Response 400 (Error_json
           ''Custom code already exists. Please choose a different one.'')), st)) \<and>
   (reads_as req url [] \<and> url \<noteq> [] \<and> is_valid_url e url \<and> \<not> lock_held st
      \<and> (\<forall>j<10. select_by_code (store st) (candidate e (rng_pos st) j) \<noteq> None) \<longrightarrow>
      shorten_url e req st =
        (Returned (Response 500 (Error_json
           ''Unable to generate unique short code. Please try again.'')),
         st\<lparr>rng_pos := rng_pos st + 60\<rparr>)) \<and>
   (reads_as req url cc \<and> url \<noteq> [] \<and> is_valid_url e url \<and> \<not> lock_held st
      \<and> choose_code e cc (acquire st) = (Inr code, st1)
      \<and> select_by_code (env_other_writers e (store st)) code \<noteq> None \<longrightarrow>
      shorten_url e req st =
        (Returned (Response 500 (Error_json
           ''Server error: UNIQUE constraint failed: urls.short_code'')),
         st\<lparr>store := env_other_writers e (store st), rng_pos := rng_pos st1\<rparr>)) \<and>
   (req_is_json req \<and> req_json req = Some data
      \<and> (or_empty_strip (map_of data ''url'') = Inl ex
           \<or> (\<exists>u. or_empty_strip (map_of data ''url'') = Inr u
                 \<and> or_empty_strip (map_of data ''custom_code'') = Inl ex)) \<longrightarrow>
      shorten_url e req st =
        (Returned (Response 500 (Error_json (''Server error: '' @ str_exn ex))), st)) \<and>
   (fst (shorten_url e req st) = Returned r \<longrightarrow>
      (status_of r = 400 \<and> (\<exists>m \<in> set client_error_reasons. body_of r = Error_json m))
      \<or> r = Response 500 (Error_json
           ''Unable to generate unique short code. Please try again.'')
      \<or> (\<exists>ex. r = Response 500 (Error_json (''Server error: '' @ str_exn ex))))"
proof -
  have empty: "reads_as req url cc \<and> url = [] \<longrightarrow>
      shorten_url e req st =
        (Returned (Response 400 (Error_json
           ''URL is required'')), st)"
    by (intro impI, elim conjE, rule reads_as_empty_url)
  have invalid: "reads_as req url cc \<and> url \<noteq> [] \<and> \<not> is_valid_url e url \<longrightarrow>
      shorten_url e req st =
        (Returned (Response 400 (Error_json
           ''Invalid URL format. Must start with http:// or https://'')), st)"
    by (intro impI, elim conjE, rule reads_as_invalid_url)
  have bad: "reads_as req url cc \<and> url \<noteq> [] \<and> is_valid_url e url \<and> \<not> lock_held st \<and> cc \<noteq> []
      \<and> \<not> re_match_code cc \<longrightarrow>
      shorten_url e req st =
        (Returned (Response 400 (Error_json
           ''Custom code can only contain letters, numbers, hyphens, and underscores'')), st)"
    by (intro impI, elim conjE, rule shorten_custom_bad_format)
  have long: "reads_as req url cc \<and> url \<noteq> [] \<and> is_valid_url e url \<and> \<not> lock_held st \<and> cc \<noteq> []
      \<and> re_match_code cc \<and> length cc > 20 \<longrightarrow>
      shorten_url e req st =
        (Returned (Response 400 (Error_json
           ''Custom code must be 20 characters or less'')), st)"
    by (intro impI, elim conjE, rule shorten_custom_too_long)
  have taken: "reads_as req url cc \<and> url \<noteq> [] \<and> is_valid_url e url \<and> \<not> lock_held st \<and> cc \<noteq> []
      \<and> re_match_code cc \<and> length cc \<le> 20 \<and> select_by_code (store st) cc \<noteq> None \<longrightarrow>
      shorten_url e req st =
        (Returned (Response 400 (Error_json
           ''Custom code already exists. Please choose a different one.'')), st)"
    by (intro impI, elim conjE, rule shorten_custom_taken)
  have exhausted: "reads_as req url [] \<and> url \<noteq> [] \<and> is_valid_url e url \<and> \<not> lock_held st
      \<and> (\<forall>j<10. select_by_code (store st) (candidate e (rng_pos st) j) \<noteq> None) \<longrightarrow>
      shorten_url e req st =
        (Returned (Response 500 (Error_json
           ''Unable to generate unique short code. Please try again.'')),
         st\<lparr>rng_pos := rng_pos st + 60\<rparr>)"
    by (intro impI, elim conjE, rule shorten_random_exhausted)
  have duplicate: "reads_as req url cc \<and> url \<noteq> [] \<and> is_valid_url e url \<and> \<not> lock_held st
      \<and> choose_code e cc (acquire st) = (Inr code, st1)
      \<and> select_by_code (env_other_writers e (store st)) code \<noteq> None \<longrightarrow>
      shorten_url e req st =
        (Returned (Response 500 (Error_json
           ''Server error: UNIQUE constraint failed: urls.short_code'')),
         st\<lparr>store := env_other_writers e (store st), rng_pos := rng_pos st1\<rparr>)"
    by (intro impI, elim conjE, rule shorten_duplicate_insert)
  have raised: "req_is_json req \<and> req_json req = Some data
      \<and> (or_empty_strip (map_of data ''url'') = Inl ex
           \<or> (\<exists>u. or_empty_strip (map_of data ''url'') = Inr u
                 \<and> or_empty_strip (map_of data ''custom_code'') = Inl ex)) \<longrightarrow>
      shorten_url e req st =
        (Returned (Response 500 (Error_json (''Server error: '' @ str_exn ex))), st)"
    by (intro impI, elim conjE, rule shorten_read_exception)
  have classes: "fst (shorten_url e req st) = Returned r \<longrightarrow>
      (status_of r = 400 \<and> (\<exists>m \<in> set client_error_reasons. body_of r = Error_json m))
      \<or> r = Response 500 (Error_json
           ''Unable to generate unique short code. Please try again.'')
      \<or> (\<exists>ex. r = Response 500 (Error_json (''Server error: '' @ str_exn ex)))"
    by (intro impI, rule shorten_url_classes)
  from empty invalid bad long taken exhausted duplicate raised classes show ?thesis
    by (intro conjI)
qed


theorem allocation_failure_statuses_witness:
  "shorten_url env0 (req_with_url []) st0 =
     (Returned (Response 400 (Error_json ''URL is required'')), st0) \<and>
   shorten_url env0 (req_with_url ''not-a-url'') st0 =
     (Returned (Response 400 (Error_json
        ''Invalid URL format. Must start with http:// or https://'')), st0) \<and>
   shorten_url env0 (req_with_code ''bad code!'') st0 =
     (Returned (Response 400 (Error_json
        ''Custom code can only contain letters, numbers, hyphens, and underscores'')), st0) \<and>
   shorten_url env0 (req_with_code ''aaaaaaaaaaaaaaaaaaaaa'') st0 =
     (Returned (Response 400 (Error_json ''Custom code must be 20 characters or less'')), st0) \<and>
   shorten_url env0 (req_with_code ''ab'') st_ab =
     (Returned (Response 400 (Error_json
        ''Custom code already exists. Please choose a different one.'')), st_ab) \<and>
   shorten_url env0 req_random st_taken =
     (Returned (Response 500 (Error_json
        ''Unable to generate unique short code. Please try again.'')),
      st_taken\<lparr>rng_pos := rng_pos st_taken + 60\<rparr>) \<and>
   shorten_url env_race_random req_random st0 =
     (Returned (Response 500 (Error_json
        ''Server error: UNIQUE constraint failed: urls.short_code'')),
      st0\<lparr>store := env_other_writers env_race_random (store st0),
         rng_pos := rng_pos ((acquire st0)\<lparr>rng_pos := 6\<rparr>)\<rparr>) \<and>
   shorten_url env0 req_int st0 =
     (Returned (Response 500 (Error_json
        (''Server error: '' @ str_exn (AttributeError (no_strip ''int''))))), st0) \<and>
   (\<exists>m \<in> set client_error_reasons. Error_json ''URL is required'' = Error_json m)"
proof -
  have rA: "reads_as (req_with_url []) [] []"
    and rB: "reads_as (req_with_url ''not-a-url'') ''not-a-url'' []"
    and rC: "reads_as (req_with_code ''bad code!'') ''https://x.com'' ''bad code!''"
    and rD: "reads_as (req_with_code ''aaaaaaaaaaaaaaaaaaaaa'') ''https://x.com'' ''aaaaaaaaaaaaaaaaaaaaa''"
    and rE: "reads_as (req_with_code ''ab'') ''https://x.com'' ''ab''"
    and rF: "reads_as req_random ''https://x.com'' []"
    by (simp_all add: reads_as_def req_with_url_def req_with_code_def req_random_def strip_defs)
  have nonempty: "''https://x.com'' \<noteq> []" and bad_url_nonempty: "''not-a-url'' \<noteq> []"
    and empty: "([] :: string) = []"
    by simp_all
  have valid0: "is_valid_url env0 ''https://x.com''"
    and valid_race: "is_valid_url env_race_random ''https://x.com''"
    and invalid: "\<not> is_valid_url env0 ''not-a-url''"
    by (simp_all add: is_valid_url_examples)
  have free0: "\<not> lock_held st0" and free_ab: "\<not> lock_held st_ab"
    and free_taken: "\<not> lock_held st_taken"
    by (simp_all add: st0_def st_ab_def st_taken_def)
  have bad1: "''bad code!'' \<noteq> []" and bad2: "\<not> re_match_code ''bad code!''"
    and long1: "''aaaaaaaaaaaaaaaaaaaaa'' \<noteq> []" and long2: "re_match_code ''aaaaaaaaaaaaaaaaaaaaa''"
    and long3: "length ''aaaaaaaaaaaaaaaaaaaaa'' > 20"
    and ab1: "''ab'' \<noteq> []" and ab2: "re_match_code ''ab''" and ab3: "length ''ab'' \<le> 20"
    by (simp_all add: code_defs)
  have taken: "select_by_code (store st_ab) ''ab'' \<noteq> None"
    by (simp add: select_by_code_def st_ab_def db_ab_def row_ab_def)
  have all_taken:
    "\<forall>j<10. select_by_code (store st_taken) (candidate env0 (rng_pos st_taken) j) \<noteq> None"
    by (simp add: candidate_env0 st_taken_def select_by_code_def row_aaaaaa_def)
  have dup: "select_by_code (env_other_writers env_race_random (store st0)) ''aaaaaa'' \<noteq> None"
    by (simp add: env_race_random_def st0_def empty_db_def select_by_code_def row_aaaaaa_def)
  have raised: "req_is_json req_int" "req_json req_int = Some [(''url'', JInt 5)]"
    "or_empty_strip (map_of [(''url'', JInt 5)] ''url'') = Inl (AttributeError (no_strip ''int''))
     \<or> (\<exists>u. or_empty_strip (map_of [(''url'', JInt 5)] ''url'') = Inr u
           \<and> or_empty_strip (map_of [(''url'', JInt 5)] ''custom_code'')
               = Inl (AttributeError (no_strip ''int'')))"
    by (simp_all add: req_int_def)
  have c1: "shorten_url env0 (req_with_url []) st0 =
     (Returned (Response 400 (Error_json ''URL is required'')), st0)"
    by (rule allocation_failure_statuses [where req = "req_with_url []" and url = "[]",
          THEN conjunct1, THEN mp, OF conjI [OF rA empty]])
  have c2: "shorten_url env0 (req_with_url ''not-a-url'') st0 =
     (Returned (Response 400 (Error_json
        ''Invalid URL format. Must start with http:// or https://'')), st0)"
    by (rule allocation_failure_statuses [where req = "req_with_url ''not-a-url''",
          THEN conjunct2, THEN conjunct1, THEN mp, OF conjI [OF rB conjI [OF bad_url_nonempty invalid]]])
  have c3: "shorten_url env0 (req_with_code ''bad code!'') st0 =
     (Returned (Response 400 (Error_json
        ''Custom code can only contain letters, numbers, hyphens, and underscores'')), st0)"
    by (rule allocation_failure_statuses [where req = "req_with_code ''bad code!''",
          THEN conjunct2, THEN conjunct2, THEN conjunct1, THEN mp,
          OF conjI [OF rC conjI [OF nonempty conjI [OF valid0 conjI [OF free0 conjI [OF bad1 bad2]]]]]])
  have c4: "shorten_url env0 (req_with_code ''aaaaaaaaaaaaaaaaaaaaa'') st0 =
     (Returned (Response 400 (Error_json ''Custom code must be 20 characters or less'')), st0)"
    by (rule allocation_failure_statuses [where req = "req_with_code ''aaaaaaaaaaaaaaaaaaaaa''",
          THEN conjunct2, THEN conjunct2, THEN conjunct2, THEN conjunct1, THEN mp,
          OF conjI [OF rD conjI [OF nonempty conjI [OF valid0 conjI [OF free0 conjI [OF long1 conjI [OF long2 long3]]]]]]])
  have c5: "shorten_url env0 (req_with_code ''ab'') st_ab =
     (Returned (Response 400 (Error_json
        ''Custom code already exists. Please choose a different one.'')), st_ab)"
    by (rule allocation_failure_statuses [where req = "req_with_code ''ab''",
          THEN conjunct2, THEN conjunct2, THEN conjunct2, THEN conjunct2, THEN conjunct1, THEN mp,
          OF conjI [OF rE conjI [OF nonempty conjI [OF valid0 conjI [OF free_ab conjI [OF ab1 conjI [OF ab2 conjI [OF ab3 taken]]]]]]]])
  have c6: "shorten_url env0 req_random st_taken =
     (Returned (Response 500 (Error_json
        ''Unable to generate unique short code. Please try again.'')),
      st_taken\<lparr>rng_pos := rng_pos st_taken + 60\<rparr>)"
    by (rule allocation_failure_statuses [where req = req_random,
          THEN conjunct2, THEN conjunct2, THEN conjunct2, THEN conjunct2, THEN conjunct2, THEN conjunct1, THEN mp,
          OF conjI [OF rF conjI [OF nonempty conjI [OF valid0 conjI [OF free_taken all_taken]]]]])
  have c7: "shorten_url env_race_random req_random st0 =
     (Returned (Response 500 (Error_json
        ''Server error: UNIQUE constraint failed: urls.short_code'')),
      st0\<lparr>store := env_other_writers env_race_random (store st0),
         rng_pos := rng_pos ((acquire st0)\<lparr>rng_pos := 6\<rparr>)\<rparr>)"
    by (rule allocation_failure_statuses [where req = req_random,
          THEN conjunct2, THEN conjunct2, THEN conjunct2, THEN conjunct2, THEN conjunct2, THEN conjunct2, THEN conjunct1, THEN mp,
          OF conjI [OF rF conjI [OF nonempty conjI [OF valid_race conjI [OF free0 conjI [OF choose_code_race_random dup]]]]]])
  have c8: "shorten_url env0 req_int st0 =
     (Returned (Response 500 (Error_json
        (''Server error: '' @ str_exn (AttributeError (no_strip ''int''))))), st0)"
    by (rule allocation_failure_statuses [where req = req_int,
          THEN conjunct2, THEN conjunct2, THEN conjunct2, THEN conjunct2, THEN conjunct2, THEN conjunct2, THEN conjunct2, THEN conjunct1, THEN mp,
          OF conjI [OF raised(1) conjI [OF raised(2) raised(3)]]])
  have returned: "fst (shorten_url env0 (req_with_url []) st0) =
      Returned (Response 400 (Error_json ''URL is required''))"
    by (simp add: c1)
  have c9: "\<exists>m \<in> set client_error_reasons. Error_json ''URL is required'' = Error_json m"
    using allocation_failure_statuses [where req = "req_with_url []" and e = env0 and st = st0,
      THEN conjunct2, THEN conjunct2, THEN conjunct2, THEN conjunct2, THEN conjunct2, THEN conjunct2, THEN conjunct2, THEN conjunct2, THEN mp, OF returned]
    by simp
  from c1 c2 c3 c4 c5 c6 c7 c8 c9 show ?thesis
    by (intro conjI)
qed

text \<open>
  The claim as worded fails twice: the exhausted random path is answered with status 500,
  which is not a 4xx status, and a request whose URL is the number 5 is answered with the
  text of the Python exception.
\<close>

theorem allocation_failure_statuses_counterexample:
  "fst (shorten_url env0 req_random st_taken) =
     Returned (Response 500 (Error_json
        ''Unable to generate unique short code. Please try again.'')) \<and>
   \<not> spec_is_4xx 500 \<and>
   fst (shorten_url env0 req_int st0) =
     Returned (Response 500 (Error_json (''Server error: '' @ no_strip ''int'')))"
  by (simp add: shorten_exhausted_eval shorten_int_eval spec_is_4xx_def)

subsection \<open>Recent mappings\<close>

lemma filter_take_prefix: "prefix (filter P (take n xs)) (filter P xs)"
proof -
  have "filter P xs = filter P (take n xs) @ filter P (drop n xs)"
    by (metis append_take_drop_id filter_append)
  then show ?thesis
    by (simp add: prefix_def)
qed

lemma sorted_desc:
  "sorted_wrt (\<lambda>a b. created_at b \<le> created_at a) (sort_key (\<lambda>r. - int (created_at r)) xs)"
proof -
  have "sorted (map (\<lambda>r. - int (created_at r)) (sort_key (\<lambda>r. - int (created_at r)) xs))"
    by (rule sorted_sort_key)
  then show ?thesis
    by (simp add: sorted_map)
qed

lemma recent_rows_sorted:
  "sorted_wrt (\<lambda>a b. created_at b \<le> created_at a) (recent_rows d)"
  unfolding recent_rows_def by (rule sorted_wrt_take [OF sorted_desc])

lemma recent_rows_ties:
  "prefix (filter (\<lambda>r. created_at r = t) (recent_rows d))
          (filter (\<lambda>r. created_at r = t) (urls d))"
proof -
  have "filter (\<lambda>r. - int (created_at r) = - int t) (sort_key (\<lambda>r. - int (created_at r)) (urls d))
      = filter (\<lambda>r. - int (created_at r) = - int t) (urls d)"
    by (rule sort_key_stable)
  then have "filter (\<lambda>r. created_at r = t) (sort_key (\<lambda>r. - int (created_at r)) (urls d))
      = filter (\<lambda>r. created_at r = t) (urls d)"
    by simp
  then show ?thesis
    unfolding recent_rows_def using filter_take_prefix [of "\<lambda>r. created_at r = t" 10] by metis
qed

lemma recent_rows_top:
  assumes "x \<in> set (urls d)" and "x \<notin> set (recent_rows d)" and "y \<in> set (recent_rows d)"
  shows "created_at x \<le> created_at y"
proof -
  let ?L = "sort_key (\<lambda>r. - int (created_at r)) (urls d)"
  have "x \<in> set (take 10 ?L @ drop 10 ?L)"
    using assms(1) by simp
  then have "x \<in> set (drop 10 ?L)"
    using assms(2) unfolding recent_rows_def set_append by blast
  moreover have "sorted_wrt (\<lambda>a b. created_at b \<le> created_at a) (take 10 ?L @ drop 10 ?L)"
    using sorted_desc [of "urls d"] by simp
  ultimately show ?thesis
    using assms(3) unfolding recent_rows_def sorted_wrt_append by blast
qed

lemma recent_tie_eval: "recent_rows (store st_tie) = [row_first, row_second]"
  by (simp add: recent_rows_def st_tie_def row_first_def row_second_def)

text \<open>
  C8, as the code has it. \<^verbatim>\<open>get_recent_urls\<close> answers with the items of at most ten
  mappings (all of them when the table has ten or fewer), in non-increasing order of their
  creation timestamp; no mapping left out is newer than one returned. Mappings that share a
  timestamp are not reordered: they appear in the order of the table, the one created first
  before the one created later.
\<close>

theorem recent_urls_order:
  "get_recent_urls req st =
     Response 200 (Recent_json
       (map (to_item (rstrip_slash (req_url_root req))) (recent_rows (store st)))) \<and>
   length (recent_rows (store st)) = min 10 (length (urls (store st))) \<and>
   sorted_wrt (\<lambda>a b. created_at b \<le> created_at a) (recent_rows (store st)) \<and>
   (\<forall>t. prefix (filter (\<lambda>r. created_at r = t) (recent_rows (store st)))
               (filter (\<lambda>r. created_at r = t) (urls (store st)))) \<and>
   (\<forall>x y. x \<in> set (urls (store st)) \<and> x \<notin> set (recent_rows (store st))
          \<and> y \<in> set (recent_rows (store st)) \<longrightarrow> created_at x \<le> created_at y)"
proof -
  have "length (recent_rows (store st)) = min 10 (length (urls (store st)))"
    by (simp add: recent_rows_def min.commute)
  then show ?thesis
    using recent_rows_sorted [of "store st"] recent_rows_ties [of _ "store st"]
      recent_rows_top [of _ "store st"]
    by (simp add: get_recent_urls_def)
qed

lemma row_at_sel [simp]: "row_id (row_at i) = i" "created_at (row_at i) = 1704067200 + i"
  by (simp_all add: row_at_def)

lemma row_at_inj: "(row_at i = row_at j) = (i = j)"
proof
  assume "row_at i = row_at j"
  then have "row_id (row_at i) = row_id (row_at j)"
    by (rule arg_cong)
  then show "i = j"
    by simp
qed simp

lemma recent_eleven_eval:
  "recent_rows (store st_eleven) = map row_at [11, 10, 9, 8, 7, 6, 5, 4, 3, 2]"
  by (simp add: recent_rows_def st_eleven_def)


theorem recent_urls_order_witness:
  "length (recent_rows (store st_eleven)) = 10 \<and>
   row_at 1 \<in> set (urls (store st_eleven)) \<and>
   row_at 1 \<notin> set (recent_rows (store st_eleven)) \<and>
   row_at 2 \<in> set (recent_rows (store st_eleven)) \<and>
   created_at (row_at 1) \<le> created_at (row_at 2)"
proof -
  note t = recent_urls_order [of req_random st_eleven]
  have a: "row_at 1 \<in> set (urls (store st_eleven))"
    by (simp add: st_eleven_def)
  have b: "row_at 1 \<notin> set (recent_rows (store st_eleven))"
    by (simp add: recent_eleven_eval row_at_inj)
  have c: "row_at 2 \<in> set (recent_rows (store st_eleven))"
    by (simp add: recent_eleven_eval)
  have len: "length (recent_rows (store st_eleven)) = min 10 (length (urls (store st_eleven)))"
    by (rule t [THEN conjunct2, THEN conjunct1])
  have top: "created_at (row_at 1) \<le> created_at (row_at 2)"
    by (rule t [THEN conjunct2, THEN conjunct2, THEN conjunct2, THEN conjunct2, rule_format,
          OF conjI [OF a conjI [OF b c]]])
  have "length (recent_rows (store st_eleven)) = 10"
    using len by (simp add: st_eleven_def)
  then show ?thesis
    using a b c top by (simp only: simp_thms)
qed

text \<open>
  The claim as worded fails for two mappings of the same second: the one created last,
  \<open>second\<close>, is listed after \<open>first\<close>.
\<close>

theorem recent_urls_order_counterexample:
  "\<not> spec_newest_first (recent_rows (store st_tie)) \<and>
   get_recent_urls req_random st_tie =
     Response 200 (Recent_json
       [to_item ''http://localhost:5000'' row_first,
        to_item ''http://localhost:5000'' row_second])"
proof -
  have "\<not> spec_newest_first (recent_rows (store st_tie))"
    by (simp add: recent_tie_eval spec_newest_first_def row_first_def row_second_def)
  moreover have "rstrip_slash (req_url_root req_random) = ''http://localhost:5000''"
    by (simp add: req_random_def rstrip_slash_def)
  ultimately show ?thesis
    by (simp add: get_recent_urls_def recent_tie_eval)
qed

end
